theory Spec2Isabelle
  imports Main "HOL-Library.Sublist"
begin

section \<open>Data model (prisma/schema.prisma)\<close>

datatype ModelStatus = Draft | Published | Unpublished | GatherInterest

datatype ModelType = Checkpoint | TextualInversion | Hypernetwork | AestheticGradient | LORA

datatype ModelHashType = AutoV1 | AutoV2 | SHA256 | CRC32 | BLAKE3

datatype ScanResultCode = Pending | Success | Danger | Error

datatype ModelFileFormat = PickleTensor | SafeTensor | Other

text \<open>Modelled from the spec: \<^verbatim>\<open>ScannerTasks\<close> (server/jobs/scan-files) is not part of these
  sources. The task vocabulary is Import, Scan, Hash and Convert, the four names that the
  handler tests for.\<close>

datatype ScannerTask = Import | Scan | Hash | Convert

text \<open>Everything the handlers can throw: \<^verbatim>\<open>URIError\<close> by the decoding of an import,
  \<^verbatim>\<open>ZodError\<close> by the parsing of the query, and the errors of the query layer, for an
  argument that does not fit its column (\<open>ValidationError\<close>), a row to update that does not
  exist, a repeated key, and a value that the store refuses (\<open>DatabaseError\<close>).\<close>

datatype error =
    URIError | ZodError | ValidationError | RecordNotFound | UniqueConstraintViolation
  | DatabaseError

section \<open>The string primitives of the host language\<close>

text \<open>
  Strings are byte strings (UTF-8). \<^verbatim>\<open>s.includes(pat)\<close>: \<open>pat\<close> occurs in \<open>s\<close> as a
  contiguous block; the empty pattern occurs in every string.
\<close>

fun includes_str :: "string \<Rightarrow> string \<Rightarrow> bool" where
  "includes_str [] pat = (pat = [])"
| "includes_str (c # cs) pat = (prefix pat (c # cs) \<or> includes_str cs pat)"

text \<open>\<^verbatim>\<open>s.split(sep)\<close> for a one-character separator: never the empty list.\<close>

fun split_on :: "char \<Rightarrow> string \<Rightarrow> string list" where
  "split_on sep [] = [[]]"
| "split_on sep (c # cs) =
     (if c = sep then [] # split_on sep cs
      else (case split_on sep cs of
              [] \<Rightarrow> [[c]]
            | p # ps \<Rightarrow> (c # p) # ps))"

text \<open>\<^verbatim>\<open>parts.join(sep)\<close>.\<close>

fun join_str :: "string \<Rightarrow> string list \<Rightarrow> string" where
  "join_str sep [] = []"
| "join_str sep [p] = p"
| "join_str sep (p # q # ps) = p @ sep @ join_str sep (q # ps)"

text \<open>\<^verbatim>\<open>xs.pop()\<close> on the result of a split: the last element (\<open>undefined\<close>, here
  \<open>None\<close>, on the empty array).\<close>

fun pop :: "'a list \<Rightarrow> 'a option" where
  "pop [] = None"
| "pop [x] = Some x"
| "pop (x # y # ys) = pop (y # ys)"

text \<open>\<^verbatim>\<open>s.replace(pat, '')\<close> with a string pattern: the first occurrence of \<open>pat\<close>
  is removed, the rest of the string is kept.\<close>

fun replace_first :: "string \<Rightarrow> string \<Rightarrow> string" where
  "replace_first [] pat = []"
| "replace_first (c # cs) pat =
     (if prefix pat (c # cs) then drop (length pat) (c # cs)
      else c # replace_first cs pat)"

text \<open>\<^verbatim>\<open>xs.indexOf(x)\<close> for an element that occurs: the index of its first occurrence
  (the length of the list when it does not occur; the source only asks for elements it
  has just pushed).\<close>

fun indexOf :: "'a \<Rightarrow> 'a list \<Rightarrow> nat" where
  "indexOf x [] = 0"
| "indexOf x (y # ys) = (if x = y then 0 else Suc (indexOf x ys))"

text \<open>\<^verbatim>\<open>xs.splice(i, 1)\<close> for \<open>i \<ge> 0\<close>: the element at index \<open>i\<close> is removed; nothing
  is removed when \<open>i\<close> is beyond the end.\<close>

definition splice1 :: "nat \<Rightarrow> 'a list \<Rightarrow> 'a list" where
  "splice1 i xs = take i xs @ drop (Suc i) xs"

text \<open>A number in a template literal: its decimal digits.\<close>

fun show_nat :: "nat \<Rightarrow> string" where
  "show_nat n =
     (if n < 10 then [char_of (48 + n)]
      else show_nat (n div 10) @ [char_of (48 + n mod 10)])"

declare show_nat.simps [simp del]

subsection \<open>trim\<close>

text \<open>The white space and line terminators of ECMAScript, as UTF-8 byte sequences:
  TAB, LF, VT, FF, CR, SP, U+00A0, U+1680, U+2000 to U+200A, U+2028, U+2029, U+202F,
  U+205F, U+3000, U+FEFF.\<close>

definition ws_seqs :: "string list" where
  "ws_seqs =
     [[CHR 0x09], [CHR 0x0A], [CHR 0x0B], [CHR 0x0C], [CHR 0x0D], [CHR 0x20],
      [CHR 0xC2, CHR 0xA0],
      [CHR 0xE1, CHR 0x9A, CHR 0x80],
      [CHR 0xE2, CHR 0x80, CHR 0x80], [CHR 0xE2, CHR 0x80, CHR 0x81],
      [CHR 0xE2, CHR 0x80, CHR 0x82], [CHR 0xE2, CHR 0x80, CHR 0x83],
      [CHR 0xE2, CHR 0x80, CHR 0x84], [CHR 0xE2, CHR 0x80, CHR 0x85],
      [CHR 0xE2, CHR 0x80, CHR 0x86], [CHR 0xE2, CHR 0x80, CHR 0x87],
      [CHR 0xE2, CHR 0x80, CHR 0x88], [CHR 0xE2, CHR 0x80, CHR 0x89],
      [CHR 0xE2, CHR 0x80, CHR 0x8A],
      [CHR 0xE2, CHR 0x80, CHR 0xA8], [CHR 0xE2, CHR 0x80, CHR 0xA9],
      [CHR 0xE2, CHR 0x80, CHR 0xAF],
      [CHR 0xE2, CHR 0x81, CHR 0x9F],
      [CHR 0xE3, CHR 0x80, CHR 0x80],
      [CHR 0xEF, CHR 0xBB, CHR 0xBF]]"

text \<open>The number of bytes of the white-space character at the front of a string, 0 when
  the string does not start with one.\<close>

definition ws_len :: "string \<Rightarrow> nat" where
  "ws_len s = (case find (\<lambda>w. prefix w s) ws_seqs of None \<Rightarrow> 0 | Some w \<Rightarrow> length w)"

function trimStart :: "string \<Rightarrow> string" where
  "trimStart s = (if 0 < ws_len s then trimStart (drop (ws_len s) s) else s)"
  by pat_completeness auto
termination
proof (relation "measure length")
  show "wf (measure length)" by simp
next
  fix s :: string
  assume pos: "0 < ws_len s"
  have "s \<noteq> []"
  proof
    assume "s = []"
    then have "ws_len s = 0" by (simp add: ws_len_def ws_seqs_def)
    with pos show False by simp
  qed
  with pos show "(drop (ws_len s) s, s) \<in> measure length" by simp
qed

declare trimStart.simps [simp del]

fun trimEnd :: "string \<Rightarrow> string" where
  "trimEnd [] = []"
| "trimEnd (c # cs) = (if trimStart (c # cs) = [] then [] else c # trimEnd cs)"

definition trim :: "string \<Rightarrow> string" where
  "trim s = trimEnd (trimStart s)"

subsection \<open>decodeURIComponent\<close>

definition hex_val :: "char \<Rightarrow> nat option" where
  "hex_val c =
     (let n = (of_char c :: nat) in
      if 48 \<le> n \<and> n \<le> 57 then Some (n - 48)
      else if 65 \<le> n \<and> n \<le> 70 then Some (n - 55)
      else if 97 \<le> n \<and> n \<le> 102 then Some (n - 87)
      else None)"

text \<open>One escape \<^verbatim>\<open>%XX\<close> at the front of a string: the octet and the rest.\<close>

fun pct_octet :: "string \<Rightarrow> (nat \<times> string) option" where
  "pct_octet (p # a # b # rest) =
     (if p = CHR ''%'' then
        (case (hex_val a, hex_val b) of
           (Some x, Some y) \<Rightarrow> Some (16 * x + y, rest)
         | _ \<Rightarrow> None)
      else None)"
| "pct_octet _ = None"

text \<open>\<open>n\<close> further escapes, as the continuation octets of a multi-byte character.\<close>

fun pct_octets :: "nat \<Rightarrow> string \<Rightarrow> (nat list \<times> string) option" where
  "pct_octets 0 s = Some ([], s)"
| "pct_octets (Suc n) s =
     (case pct_octet s of
        None \<Rightarrow> None
      | Some (b, rest) \<Rightarrow>
          (case pct_octets n rest of
             None \<Rightarrow> None
           | Some (bs, rest') \<Rightarrow> Some (b # bs, rest')))"

text \<open>The number of octets that a leading octet announces (0: not a leading octet).\<close>

definition utf8_len :: "nat \<Rightarrow> nat" where
  "utf8_len b =
     (if b < 0x80 then 1
      else if 0xC0 \<le> b \<and> b < 0xE0 then 2
      else if 0xE0 \<le> b \<and> b < 0xF0 then 3
      else if 0xF0 \<le> b \<and> b < 0xF8 then 4
      else 0)"

text \<open>Well-formed UTF-8 (no overlong forms, no surrogates, nothing above U+10FFFF).\<close>

definition cont :: "nat \<Rightarrow> bool" where
  "cont b = (0x80 \<le> b \<and> b \<le> 0xBF)"

fun utf8_valid :: "nat list \<Rightarrow> bool" where
  "utf8_valid [a] = (a < 0x80)"
| "utf8_valid [a, b] = (0xC2 \<le> a \<and> a \<le> 0xDF \<and> cont b)"
| "utf8_valid [a, b, c] =
     (cont c \<and>
      ((a = 0xE0 \<and> 0xA0 \<le> b \<and> b \<le> 0xBF) \<or>
       (0xE1 \<le> a \<and> a \<le> 0xEC \<and> cont b) \<or>
       (a = 0xED \<and> 0x80 \<le> b \<and> b \<le> 0x9F) \<or>
       (0xEE \<le> a \<and> a \<le> 0xEF \<and> cont b)))"
| "utf8_valid [a, b, c, d] =
     (cont c \<and> cont d \<and>
      ((a = 0xF0 \<and> 0x90 \<le> b \<and> b \<le> 0xBF) \<or>
       (0xF1 \<le> a \<and> a \<le> 0xF3 \<and> cont b) \<or>
       (a = 0xF4 \<and> 0x80 \<le> b \<and> b \<le> 0x8F)))"
| "utf8_valid _ = False"

text \<open>
  \<^verbatim>\<open>decodeURIComponent(s)\<close>: every escape is replaced by the character it encodes, every
  other character is kept. A \<^verbatim>\<open>%\<close> that is not followed by two hexadecimal digits, or
  escapes that are not the UTF-8 encoding of a character, throw \<^verbatim>\<open>URIError\<close>. The first
  argument counts the characters of an escape already decoded that are still to be
  stepped over.
\<close>

fun decode_from :: "nat \<Rightarrow> string \<Rightarrow> error + string" where
  "decode_from skip [] = Inr []"
| "decode_from (Suc skip) (c # cs) = decode_from skip cs"
| "decode_from 0 (c # cs) =
     (if c \<noteq> CHR ''%'' then
        (case decode_from 0 cs of Inl e \<Rightarrow> Inl e | Inr r \<Rightarrow> Inr (c # r))
      else
        (case pct_octet (c # cs) of
           None \<Rightarrow> Inl URIError
         | Some (b, rest) \<Rightarrow>
             (case pct_octets (utf8_len b - 1) rest of
                None \<Rightarrow> Inl URIError
              | Some (bs, rest') \<Rightarrow>
                  if utf8_valid (b # bs) then
                    (case decode_from (2 + 3 * length bs) cs of
                       Inl e \<Rightarrow> Inl e
                     | Inr r \<Rightarrow> Inr (map char_of (b # bs) @ r))
                  else Inl URIError)))"

definition decodeURIComponent :: "string \<Rightarrow> error + string" where
  "decodeURIComponent s = decode_from 0 s"

text \<open>Mapping a function that can throw over an array: the first error wins.\<close>

fun mapM_err :: "('a \<Rightarrow> error + 'b) \<Rightarrow> 'a list \<Rightarrow> error + 'b list" where
  "mapM_err f [] = Inr []"
| "mapM_err f (x # xs) =
     (case f x of
        Inl e \<Rightarrow> Inl e
      | Inr y \<Rightarrow> (case mapM_err f xs of Inl e \<Rightarrow> Inl e | Inr ys \<Rightarrow> Inr (y # ys)))"

section \<open>The scan result and the pickle imports (scan-result.ts)\<close>

text \<open>\<^verbatim>\<open>enum ScanExitCode\<close>: the exit codes of the scanner are numbers; the payload is
  not validated, so any number can arrive.\<close>

definition ScanExitCode_Pending :: int where "ScanExitCode_Pending = - 1"
definition ScanExitCode_Success :: int where "ScanExitCode_Success = 0"
definition ScanExitCode_Danger :: int where "ScanExitCode_Danger = 1"
definition ScanExitCode_Error :: int where "ScanExitCode_Error = 2"

text \<open>\<^verbatim>\<open>resultCodeMap[code]\<close>: \<open>None\<close> is \<^verbatim>\<open>undefined\<close>, for a code that is no key.\<close>

definition resultCodeMap :: "int \<Rightarrow> ScanResultCode option" where
  "resultCodeMap code =
     (if code = ScanExitCode_Pending then Some Pending
      else if code = ScanExitCode_Success then Some Success
      else if code = ScanExitCode_Danger then Some Danger
      else if code = ScanExitCode_Error then Some Error
      else None)"

text \<open>\<^verbatim>\<open>type ScanResult\<close>. An optional field that is absent is \<open>None\<close>; \<open>hashes\<close> is
  tested for presence by the handler, so it is optional here too. The hash object is the
  list of its entries, in the order of \<^verbatim>\<open>Object.entries\<close>.\<close>

record ScanResult =
  url :: string
  fileExists :: int
  picklescanExitCode :: int
  picklescanOutput :: "string option"
  picklescanGlobalImports :: "string list option"
  picklescanDangerousImports :: "string list option"
  clamscanExitCode :: int
  clamscanOutput :: string
  hashes :: "(ModelHashType \<times> string) list option"

definition processImport :: "string \<Rightarrow> error + string" where
  "processImport importStr =
     (case decodeURIComponent importStr of
        Inl e \<Rightarrow> Inl e
      | Inr decoded \<Rightarrow>
          Inr (join_str ''.''
                (map (\<lambda>x. trim (filter (\<lambda>c. c \<noteq> CHR 0x27) x)) (split_on CHR '','' decoded))))"

definition specialImports :: "string list" where
  "specialImports = [''pytorch_lightning.callbacks.model_checkpoint.ModelCheckpoint'']"

text \<open>\<^verbatim>\<open>picklescanGlobalImports.filter((x) => specialImports.includes(processImport(x)))\<close>\<close>

fun filter_special :: "string list \<Rightarrow> error + string list" where
  "filter_special [] = Inr []"
| "filter_special (x # xs) =
     (case processImport x of
        Inl e \<Rightarrow> Inl e
      | Inr p \<Rightarrow>
          (case filter_special xs of
             Inl e \<Rightarrow> Inl e
           | Inr r \<Rightarrow> Inr (if p \<in> set specialImports then x # r else r)))"

text \<open>The loop over \<^verbatim>\<open>dangerousGlobals\<close>: each import is pushed on the dangerous
  imports, and the global import at the index that the import has among the
  \<^emph>\<open>dangerous\<close> imports is spliced out. The state is the pair of the two arrays.\<close>

fun move_dangerous :: "string list \<Rightarrow> string list \<times> string list \<Rightarrow> string list \<times> string list" where
  "move_dangerous [] (dangerous, globals) = (dangerous, globals)"
| "move_dangerous (imp # imps) (dangerous, globals) =
     move_dangerous imps
       (dangerous @ [imp], splice1 (indexOf imp (dangerous @ [imp])) globals)"

text \<open>The object that \<^verbatim>\<open>examinePickleScanMessage\<close> returns; a field that the returned
  object does not have is \<open>None\<close>.\<close>

record PickleExamination =
  pickleScanMessage :: "string option"
  hasDanger :: "bool option"

text \<open>
  \<^verbatim>\<open>examinePickleScanMessage\<close>. The two arrays are those of the payload when the payload
  has them, so the pushes and splices are seen by the caller: the function returns the
  payload as it has left it. An array that the payload lacks is a fresh local one.
  After \<^verbatim>\<open>??=\<close> both arrays are objects, so the second disjunct of the test for
  "no imports" is never true.
\<close>

definition examinePickleScanMessage :: "ScanResult \<Rightarrow> error + (PickleExamination \<times> ScanResult)" where
  "examinePickleScanMessage sr =
     (if picklescanExitCode sr = ScanExitCode_Pending then
        Inr (\<lparr>pickleScanMessage = None, hasDanger = None\<rparr>, sr)
      else
        let dangerous0 = (case picklescanDangerousImports sr of None \<Rightarrow> [] | Some xs \<Rightarrow> xs);
            globals0 = (case picklescanGlobalImports sr of None \<Rightarrow> [] | Some xs \<Rightarrow> xs);
            importCount = length dangerous0 + length globals0
        in
        if importCount = 0 then
          Inr (\<lparr>pickleScanMessage = Some ''No Pickle imports'', hasDanger = Some False\<rparr>, sr)
        else
          (case filter_special globals0 of
             Inl e \<Rightarrow> Inl e
           | Inr dangerousGlobals \<Rightarrow>
               (case move_dangerous dangerousGlobals (dangerous0, globals0) of
                  (dangerous, globals) \<Rightarrow>
                    let header = ''**Detected Pickle imports ('' @ show_nat importCount @ '')**'';
                        danger = (0 < length dangerous);
                        lines0 = (if danger then [header, ''*Dangerous import detected*'']
                                  else [header]);
                        fence = [CHR 0x60, CHR 0x60, CHR 0x60]
                    in
                    (case mapM_err processImport dangerous of
                       Inl e \<Rightarrow> Inl e
                     | Inr ds \<Rightarrow>
                         (case mapM_err processImport globals of
                            Inl e \<Rightarrow> Inl e
                          | Inr gs \<Rightarrow>
                              Inr (\<lparr>pickleScanMessage =
                                      Some (join_str [CHR 0x0A]
                                        (lines0 @ [fence]
                                         @ map (\<lambda>d. ''*'' @ d @ ''*'') ds @ gs @ [fence])),
                                    hasDanger = Some danger\<rparr>,
                                   sr\<lparr>picklescanDangerousImports :=
                                        map_option (\<lambda>_. dangerous) (picklescanDangerousImports sr),
                                      picklescanGlobalImports :=
                                        map_option (\<lambda>_. globals) (picklescanGlobalImports sr)\<rparr>))))))"

section \<open>The store\<close>

text \<open>The rows of the four tables that the intake handler touches, with the columns it
  reads or writes, and the operations of the query layer on them. A table is the list
  of its rows.\<close>

record ModelFile =
  file_id :: int
  file_name :: string
  file_url :: string
  file_type :: string
  file_format :: ModelFileFormat
  file_modelVersionId :: int
  file_exists :: "bool option"
  file_pickleScanResult :: ScanResultCode
  file_pickleScanMessage :: "string option"
  file_virusScanResult :: ScanResultCode
  file_virusScanMessage :: "string option"
  file_scannedAt :: "nat option"
  file_rawScanResult :: "ScanResult option"

record ModelHash =
  hash_fileId :: int
  hash_type :: ModelHashType
  hash_hash :: string

record ModelVersion =
  version_id :: int
  version_name :: string
  version_modelId :: int
  version_trainedWords :: "string list"
  version_status :: ModelStatus

record Model =
  model_id :: int
  model_name :: string
  model_type :: ModelType
  model_status :: ModelStatus

text \<open>
  A number of the host language, as far as the handler and the query layer tell numbers
  apart: an integer, a number that is not an integer (a fraction or an infinity), or NaN.
  The ids of the tables are columns of type \<^verbatim>\<open>Int\<close>, 32 bits wide. The query layer checks
  an argument against its column before it runs a call: \<open>Int_column\<close> is the id that a
  number stands for, \<open>None\<close> for a number that is not an integer from -2147483648 to
  2147483647. \<open>int_value\<close> reads the integer of a number that has passed the check.
\<close>

datatype number = IntegerNumber int | NonInteger | NaN

definition Int_column :: "number \<Rightarrow> int option" where
  "Int_column n =
     (case n of
        IntegerNumber i \<Rightarrow> if - 2147483648 \<le> i \<and> i \<le> 2147483647 then Some i else None
      | _ \<Rightarrow> None)"

definition int_value :: "number \<Rightarrow> int" where
  "int_value n = (case n of IntegerNumber i \<Rightarrow> i | _ \<Rightarrow> 0)"

text \<open>Every call of the query layer is recorded, in the order of the calls.\<close>

datatype db_op =
    FileFindUnique number string ModelFileFormat
  | FileUpdate int string ModelFileFormat
  | HashDeleteMany int
  | HashCreateMany int nat
  | VersionUpdate int ModelStatus
  | VersionFindUnique int
  | ModelCountPublished int "nat option"
  | ModelUpdate int ModelStatus

fun is_write :: "db_op \<Rightarrow> bool" where
  "is_write (FileFindUnique _ _ _) = False"
| "is_write (FileUpdate _ _ _) = True"
| "is_write (HashDeleteMany _) = True"
| "is_write (HashCreateMany _ _) = True"
| "is_write (VersionUpdate _ _) = True"
| "is_write (VersionFindUnique _) = False"
| "is_write (ModelCountPublished _ _) = False"
| "is_write (ModelUpdate _ _) = True"

record db =
  modelFiles :: "ModelFile list"
  modelHashes :: "ModelHash list"
  modelVersions :: "ModelVersion list"
  models :: "Model list"
  oplog :: "db_op list"

definition record_op :: "db_op \<Rightarrow> db \<Rightarrow> db" where
  "record_op op d = d\<lparr>oplog := oplog d @ [op]\<rparr>"

text \<open>A field of an update input: not a key of the object, a key whose value is
  \<^verbatim>\<open>undefined\<close>, or a key with a value. The query layer leaves the column alone in
  the first two cases; \<^verbatim>\<open>Object.keys\<close> counts the last two.\<close>

datatype 'a field = Absent | Undefined | Value 'a

definition assign :: "'a field \<Rightarrow> 'a \<Rightarrow> 'a" where
  "assign f old = (case f of Value v \<Rightarrow> v | _ \<Rightarrow> old)"

definition of_undefined :: "'a option \<Rightarrow> 'a field" where
  "of_undefined x = (case x of None \<Rightarrow> Undefined | Some v \<Rightarrow> Value v)"

record ModelFileUpdateInput =
  data_scannedAt :: "nat field"
  data_rawScanResult :: "ScanResult field"
  data_virusScanResult :: "ScanResultCode field"
  data_virusScanMessage :: "string option field"
  data_pickleScanResult :: "ScanResultCode field"
  data_pickleScanMessage :: "string field"
  data_exists :: "bool field"
  data_url :: "string field"

definition empty_data :: ModelFileUpdateInput where
  "empty_data =
     \<lparr>data_scannedAt = Absent, data_rawScanResult = Absent, data_virusScanResult = Absent,
      data_virusScanMessage = Absent, data_pickleScanResult = Absent,
      data_pickleScanMessage = Absent, data_exists = Absent, data_url = Absent\<rparr>"

text \<open>\<^verbatim>\<open>Object.keys(data).length > 0\<close>\<close>

definition has_keys :: "ModelFileUpdateInput \<Rightarrow> bool" where
  "has_keys data =
     (data_scannedAt data \<noteq> Absent \<or> data_rawScanResult data \<noteq> Absent \<or>
      data_virusScanResult data \<noteq> Absent \<or> data_virusScanMessage data \<noteq> Absent \<or>
      data_pickleScanResult data \<noteq> Absent \<or> data_pickleScanMessage data \<noteq> Absent \<or>
      data_exists data \<noteq> Absent \<or> data_url data \<noteq> Absent)"

definition apply_data :: "ModelFileUpdateInput \<Rightarrow> ModelFile \<Rightarrow> ModelFile" where
  "apply_data data f =
     f\<lparr>file_scannedAt := assign (case data_scannedAt data of Value t \<Rightarrow> Value (Some t)
                                    | Undefined \<Rightarrow> Undefined | Absent \<Rightarrow> Absent)
                                  (file_scannedAt f),
       file_rawScanResult := assign (case data_rawScanResult data of Value r \<Rightarrow> Value (Some r)
                                    | Undefined \<Rightarrow> Undefined | Absent \<Rightarrow> Absent)
                                  (file_rawScanResult f),
       file_virusScanResult := assign (data_virusScanResult data) (file_virusScanResult f),
       file_virusScanMessage := assign (data_virusScanMessage data) (file_virusScanMessage f),
       file_pickleScanResult := assign (data_pickleScanResult data) (file_pickleScanResult f),
       file_pickleScanMessage := assign (case data_pickleScanMessage data of
                                           Value m \<Rightarrow> Value (Some m)
                                         | Undefined \<Rightarrow> Undefined | Absent \<Rightarrow> Absent)
                                        (file_pickleScanMessage f),
       file_exists := assign (case data_exists data of Value b \<Rightarrow> Value (Some b)
                                    | Undefined \<Rightarrow> Undefined | Absent \<Rightarrow> Absent)
                             (file_exists f),
       file_url := assign (data_url data) (file_url f)\<rparr>"

text \<open>The compound unique key \<^verbatim>\<open>modelVersionId_type_format\<close>.\<close>

definition has_key :: "int \<Rightarrow> string \<Rightarrow> ModelFileFormat \<Rightarrow> ModelFile \<Rightarrow> bool" where
  "has_key modelVersionId type format f =
     (file_modelVersionId f = modelVersionId \<and> file_type f = type \<and> file_format f = format)"

text \<open>The lookup takes the id as the number of the query: it throws for a number that is
  no id of the column, and otherwise returns the row with the key, or \<^verbatim>\<open>null\<close>.\<close>

definition modelFile_findUnique ::
  "number \<Rightarrow> string \<Rightarrow> ModelFileFormat \<Rightarrow> db \<Rightarrow> (error + ModelFile option) \<times> db" where
  "modelFile_findUnique modelVersionId type format d =
     (let d' = record_op (FileFindUnique modelVersionId type format) d in
      case Int_column modelVersionId of
        None \<Rightarrow> (Inl ValidationError, d')
      | Some i \<Rightarrow> (Inr (find (has_key i type format) (modelFiles d)), d'))"

text \<open>The store refuses a text that contains the character U+0000, in a text column and
  in a string of a JSON column.\<close>

definition has_nul :: "string \<Rightarrow> bool" where
  "has_nul s = (CHR 0x00 \<in> set s)"

definition scan_has_nul :: "ScanResult \<Rightarrow> bool" where
  "scan_has_nul sr =
     (has_nul (url sr) \<or>
      (case picklescanOutput sr of None \<Rightarrow> False | Some s \<Rightarrow> has_nul s) \<or>
      (case picklescanGlobalImports sr of None \<Rightarrow> False | Some xs \<Rightarrow> \<exists>x \<in> set xs. has_nul x) \<or>
      (case picklescanDangerousImports sr of None \<Rightarrow> False | Some xs \<Rightarrow> \<exists>x \<in> set xs. has_nul x) \<or>
      has_nul (clamscanOutput sr) \<or>
      (case hashes sr of None \<Rightarrow> False | Some es \<Rightarrow> \<exists>e \<in> set es. has_nul (snd e)))"

text \<open>The values of an update input that the store accepts: the URL, the two messages and
  the strings of the raw scan result are free of U+0000.\<close>

definition writable :: "ModelFileUpdateInput \<Rightarrow> bool" where
  "writable data =
     (\<not> (case data_url data of Value u \<Rightarrow> has_nul u | _ \<Rightarrow> False) \<and>
      \<not> (case data_pickleScanMessage data of Value m \<Rightarrow> has_nul m | _ \<Rightarrow> False) \<and>
      \<not> (case data_virusScanMessage data of Value (Some m) \<Rightarrow> has_nul m | _ \<Rightarrow> False) \<and>
      \<not> (case data_rawScanResult data of Value sr \<Rightarrow> scan_has_nul sr | _ \<Rightarrow> False))"

text \<open>An update throws for a value that the store refuses, and for a row that does not
  exist.\<close>

definition modelFile_update ::
  "int \<Rightarrow> string \<Rightarrow> ModelFileFormat \<Rightarrow> ModelFileUpdateInput \<Rightarrow> db \<Rightarrow> (error + unit) \<times> db" where
  "modelFile_update modelVersionId type format data d =
     (let d' = record_op (FileUpdate modelVersionId type format) d in
      if \<not> writable data then (Inl DatabaseError, d')
      else if \<exists>f \<in> set (modelFiles d). has_key modelVersionId type format f then
        (Inr (),
         d'\<lparr>modelFiles :=
              map (\<lambda>f. if has_key modelVersionId type format f then apply_data data f else f)
                (modelFiles d)\<rparr>)
      else (Inl RecordNotFound, d'))"

definition modelHash_deleteMany :: "int \<Rightarrow> db \<Rightarrow> db" where
  "modelHash_deleteMany fileId d =
     (record_op (HashDeleteMany fileId) d)
       \<lparr>modelHashes := filter (\<lambda>h. hash_fileId h \<noteq> fileId) (modelHashes d)\<rparr>"

text \<open>The primary key of a hash is (file, algorithm): an insert that repeats a key,
  among the new rows or against the table, throws and inserts nothing, and so does an
  insert of a hash that the store refuses.\<close>

definition hash_key :: "ModelHash \<Rightarrow> int \<times> ModelHashType" where
  "hash_key h = (hash_fileId h, hash_type h)"

definition modelHash_createMany :: "int \<Rightarrow> ModelHash list \<Rightarrow> db \<Rightarrow> (error + unit) \<times> db" where
  "modelHash_createMany fileId rows d =
     (let d' = record_op (HashCreateMany fileId (length rows)) d in
      if \<exists>r \<in> set rows. has_nul (hash_hash r) then (Inl DatabaseError, d')
      else if distinct (map hash_key rows) \<and>
         (\<forall>r \<in> set rows. hash_key r \<notin> set (map hash_key (modelHashes d)))
      then (Inr (), d'\<lparr>modelHashes := modelHashes d @ rows\<rparr>)
      else (Inl UniqueConstraintViolation, d'))"

definition set_version_status :: "int \<Rightarrow> ModelStatus \<Rightarrow> ModelVersion list \<Rightarrow> ModelVersion list" where
  "set_version_status versionId st vs =
     map (\<lambda>v. if version_id v = versionId then v\<lparr>version_status := st\<rparr> else v) vs"

definition modelVersion_update :: "int \<Rightarrow> ModelStatus \<Rightarrow> db \<Rightarrow> (error + unit) \<times> db" where
  "modelVersion_update versionId st d =
     (let d' = record_op (VersionUpdate versionId st) d in
      if \<exists>v \<in> set (modelVersions d). version_id v = versionId then
        (Inr (), d'\<lparr>modelVersions := set_version_status versionId st (modelVersions d)\<rparr>)
      else (Inl RecordNotFound, d'))"

definition modelVersion_findUnique :: "int \<Rightarrow> db \<Rightarrow> ModelVersion option \<times> db" where
  "modelVersion_findUnique versionId d =
     (find (\<lambda>v. version_id v = versionId) (modelVersions d),
      record_op (VersionFindUnique versionId) d)"

text \<open>\<^verbatim>\<open>model.findUnique\<close> selecting the count of the versions of the model that are
  Published: \<open>None\<close> (\<^verbatim>\<open>null\<close>) when the model does not exist.\<close>

definition count_published :: "int \<Rightarrow> ModelVersion list \<Rightarrow> nat" where
  "count_published modelId vs =
     length (filter (\<lambda>v. version_modelId v = modelId \<and> version_status v = Published) vs)"

definition model_countPublished :: "int \<Rightarrow> db \<Rightarrow> nat option \<times> db" where
  "model_countPublished modelId d =
     (let r = (if \<exists>m \<in> set (models d). model_id m = modelId
               then Some (count_published modelId (modelVersions d))
               else None)
      in (r, record_op (ModelCountPublished modelId r) d))"

definition set_model_status :: "int \<Rightarrow> ModelStatus \<Rightarrow> Model list \<Rightarrow> Model list" where
  "set_model_status modelId st ms =
     map (\<lambda>m. if model_id m = modelId then m\<lparr>model_status := st\<rparr> else m) ms"

definition model_update :: "int \<Rightarrow> ModelStatus \<Rightarrow> db \<Rightarrow> (error + unit) \<times> db" where
  "model_update modelId st d =
     (let d' = record_op (ModelUpdate modelId st) d in
      if \<exists>m \<in> set (models d). model_id m = modelId then
        (Inr (), d'\<lparr>models := set_model_status modelId st (models d)\<rparr>)
      else (Inl RecordNotFound, d'))"

section \<open>The intake handler (scan-result.ts)\<close>

text \<open>Sequencing: a step that has thrown ends the handler; the store stays as the step
  has left it.\<close>

definition and_then ::
  "(error + 'a) \<times> db \<Rightarrow> ('a \<Rightarrow> db \<Rightarrow> (error + 'b) \<times> db) \<Rightarrow> (error + 'b) \<times> db" where
  "and_then r f = (case r of (Inl e, d) \<Rightarrow> (Inl e, d) | (Inr x, d) \<Rightarrow> f x d)"

text \<open>\<^verbatim>\<open>unpublish\<close>. \<^verbatim>\<open>if (modelId)\<close> is false for the number 0 too.\<close>

definition unpublish :: "int \<Rightarrow> db \<Rightarrow> (error + unit) \<times> db" where
  "unpublish modelVersionId d =
     (case modelVersion_update modelVersionId Draft d of
        (Inl e, d1) \<Rightarrow> (Inl e, d1)
      | (Inr _, d1) \<Rightarrow>
          (case modelVersion_findUnique modelVersionId d1 of
             (None, d2) \<Rightarrow> (Inr (), d2)
           | (Some v, d2) \<Rightarrow>
               if version_modelId v \<noteq> 0 then
                 (case model_countPublished (version_modelId v) d2 of
                    (modelVersionCount, d3) \<Rightarrow>
                      if modelVersionCount = Some 0
                      then model_update (version_modelId v) Unpublished d3
                      else (Inr (), d3))
               else (Inr (), d2)))"

text \<open>What the handler takes from its surroundings: the bucket of the environment, the
  file types of \<^verbatim>\<open>constants.modelFileTypes\<close> (the constants are not part of these sources,
  so the vocabulary is a parameter), and the clock.\<close>

record config =
  S3_UPLOAD_BUCKET :: string
  modelFileTypes :: "string list"
  now :: nat

text \<open>The query after \<^verbatim>\<open>querySchema.parse\<close>: \<open>q_modelVersionId\<close> is \<^verbatim>\<open>Number(val)\<close> of the
  parameter, any number.\<close>

record query =
  q_modelVersionId :: number
  q_type :: string
  q_format :: ModelFileFormat
  q_tasks :: "ScannerTask list option"

record request =
  req_method :: string
  req_query :: query
  req_body :: ScanResult

datatype json = ErrorJson string | OkJson

record response =
  res_status :: nat
  res_json :: json

text \<open>\<^verbatim>\<open>querySchema.parse\<close>: \<^verbatim>\<open>z.number()\<close> refuses NaN and takes every other number, and
  the type has to be one of the file types.\<close>

definition querySchema_parse :: "config \<Rightarrow> query \<Rightarrow> error + query" where
  "querySchema_parse cfg q =
     (if q_modelVersionId q \<noteq> NaN \<and> q_type q \<in> set (modelFileTypes cfg)
      then Inr q else Inl ZodError)"

text \<open>The block "Update scan result". The verdict of the pickle scan is read from the
  exit code before the imports are examined; the exit code of the payload is overwritten
  after. \<^verbatim>\<open>data.rawScanResult\<close> is the payload object itself, so it is stored as the
  block leaves it.\<close>

definition scan_task ::
  "config \<Rightarrow> ScanResult \<Rightarrow> ModelFileUpdateInput \<Rightarrow> error + (ModelFileUpdateInput \<times> ScanResult)" where
  "scan_task cfg scanResult data =
     (let data1 = data\<lparr>data_scannedAt := Value (now cfg),
                      data_virusScanResult := of_undefined (resultCodeMap (clamscanExitCode scanResult)),
                      data_virusScanMessage :=
                        Value (if clamscanExitCode scanResult \<noteq> ScanExitCode_Success
                               then Some (clamscanOutput scanResult) else None),
                      data_pickleScanResult :=
                        of_undefined (resultCodeMap (picklescanExitCode scanResult))\<rparr>
      in case examinePickleScanMessage scanResult of
           Inl e \<Rightarrow> Inl e
         | Inr (ex, scanResult1) \<Rightarrow>
             let data2 = data1\<lparr>data_pickleScanMessage := of_undefined (pickleScanMessage ex)\<rparr>;
                 scanResult2 = (if hasDanger ex = Some True
                                then scanResult1\<lparr>picklescanExitCode := ScanExitCode_Danger\<rparr>
                                else scanResult1)
             in Inr (data2\<lparr>data_rawScanResult := Value scanResult2\<rparr>, scanResult2))"

text \<open>The block "Update url if we imported/moved the file".\<close>

definition import_task ::
  "config \<Rightarrow> int \<Rightarrow> string \<Rightarrow> ScanResult \<Rightarrow> ModelFileUpdateInput \<Rightarrow> db \<Rightarrow>
     (error + ModelFileUpdateInput) \<times> db" where
  "import_task cfg modelVersionId file_url0 scanResult data d =
     (let exists = (fileExists scanResult = 1);
          data1 = data\<lparr>data_exists := Value exists\<rparr>;
          bucket = S3_UPLOAD_BUCKET cfg;
          scannerImportedFile =
            (\<not> includes_str file_url0 bucket \<and> includes_str (url scanResult) bucket);
          data2 = (if exists \<and> scannerImportedFile
                   then data1\<lparr>data_url := Value (url scanResult)\<rparr> else data1)
      in if \<not> exists then and_then (unpublish modelVersionId d) (\<lambda>_ d1. (Inr data2, d1))
         else (Inr data2, d))"

text \<open>The block "Update hashes".\<close>

definition hash_task :: "int \<Rightarrow> (ModelHashType \<times> string) list \<Rightarrow> db \<Rightarrow> (error + unit) \<times> db" where
  "hash_task fileId entries d =
     modelHash_createMany fileId
       (map (\<lambda>(type, hash). \<lparr>hash_fileId = fileId, hash_type = type, hash_hash = hash\<rparr>) entries)
       (modelHash_deleteMany fileId d)"

text \<open>\<^verbatim>\<open>query.tasks ?? ['Import', 'Scan', 'Hash']\<close>\<close>

definition tasks_of :: "query \<Rightarrow> ScannerTask list" where
  "tasks_of q = (case q_tasks q of None \<Rightarrow> [Import, Scan, Hash] | Some ts \<Rightarrow> ts)"

text \<open>The handler. After a lookup that has not thrown, the number of the query is an id
  of the column, and the later calls take it as that integer.\<close>

definition WebhookEndpoint :: "config \<Rightarrow> request \<Rightarrow> db \<Rightarrow> (error + response) \<times> db" where
  "WebhookEndpoint cfg req d =
     (if req_method req \<noteq> ''POST'' then
        (Inr \<lparr>res_status = 405, res_json = ErrorJson ''Method not allowed''\<rparr>, d)
      else
        (case querySchema_parse cfg (req_query req) of
           Inl e \<Rightarrow> (Inl e, d)
         | Inr q \<Rightarrow>
            (let modelVersionId = q_modelVersionId q;
                 type = q_type q;
                 format = q_format q;
                 tasks = tasks_of q;
                 scanResult = req_body req
             in
             (case modelFile_findUnique modelVersionId type format d of
                (Inl e, d0) \<Rightarrow> (Inl e, d0)
              | (Inr None, d0) \<Rightarrow>
                  (Inr \<lparr>res_status = 404, res_json = ErrorJson ''File not found''\<rparr>, d0)
              | (Inr (Some file), d0) \<Rightarrow>
                  if file_url file = [] \<or> file_id file = 0 then
                    (Inr \<lparr>res_status = 404, res_json = ErrorJson ''File not found''\<rparr>, d0)
                  else
                    and_then
                      (if Scan \<in> set tasks then (scan_task cfg scanResult empty_data, d0)
                       else (Inr (empty_data, scanResult), d0))
                      (\<lambda>(data1, scanResult1) d1.
                    and_then
                      (if Import \<in> set tasks
                       then import_task cfg (int_value modelVersionId) (file_url file)
                              scanResult1 data1 d1
                       else (Inr data1, d1))
                      (\<lambda>data2 d2.
                    and_then
                      (if has_keys data2
                       then modelFile_update (int_value modelVersionId) type format data2 d2
                       else (Inr (), d2))
                      (\<lambda>_ d3.
                    and_then
                      (case (Hash \<in> set tasks, hashes scanResult1) of
                         (True, Some entries) \<Rightarrow> hash_task (file_id file) entries d3
                       | _ \<Rightarrow> (Inr (), d3))
                      (\<lambda>_ d4.
                         (Inr \<lparr>res_status = 200, res_json = OkJson\<rparr>, d4)))))))))"

section \<open>The file name of a download ([modelVersionId].ts)\<close>

text \<open>The three arguments of \<^verbatim>\<open>getDownloadFilename\<close>, with the fields it declares.\<close>

record dl_model =
  dl_model_name :: string
  dl_model_type :: ModelType

record dl_version =
  dl_version_name :: string
  dl_trainedWords :: "string list"

record dl_file =
  dl_file_name :: string
  dl_file_type :: string

text \<open>
  \<^verbatim>\<open>getDownloadFilename\<close>. \<^verbatim>\<open>filenamize\<close> (of the string helpers) and the file types of
  \<^verbatim>\<open>constants.modelFileTypes\<close> are not part of these sources: both are parameters.
  \<^verbatim>\<open>ext\<close> is \<^verbatim>\<open>file.name.split('.').pop()\<close>: what follows the last dot of the name, the
  whole name when it has no dot.
  \<^verbatim>\<open>trainedWords[0]\<close> is \<^verbatim>\<open>undefined\<close> on an empty array, and the empty string is as
  false as \<^verbatim>\<open>undefined\<close>.
\<close>

definition ext_of :: "string \<Rightarrow> string" where
  "ext_of name = (case pop (split_on CHR ''.'' name) of None \<Rightarrow> ''undefined'' | Some e \<Rightarrow> e)"

definition getDownloadFilename ::
  "(string \<Rightarrow> string) \<Rightarrow> string list \<Rightarrow> dl_model \<Rightarrow> dl_version \<Rightarrow> dl_file \<Rightarrow> string" where
  "getDownloadFilename filenamize fileTypes model modelVersion file =
     (let fileName = dl_file_name file;
          modelName = filenamize (dl_model_name model);
          versionName = replace_first (filenamize (dl_version_name modelVersion)) modelName;
          ext = ext_of (dl_file_name file);
          fileType = dl_file_type file
      in
      if fileType \<notin> set fileTypes then dl_file_name file
      else if fileType = ''Training Data'' then
        modelName @ ''_'' @ versionName @ ''_trainingData.zip''
      else if dl_model_type model = TextualInversion then
        (let fileSuffix = (if fileType = ''Negative'' then ''-neg'' else []) in
         case dl_trainedWords modelVersion of
           [] \<Rightarrow> fileName
         | trainedWord # _ \<Rightarrow>
             if trainedWord \<noteq> [] then trainedWord @ fileSuffix @ ''.'' @ ext else fileName)
      else if fileType \<noteq> ''VAE'' then
        (let fileSuffix = (if includes_str fileName ''-inpainting'' then ''-inpainting''
                           else if fileType = ''Text Encoder'' then ''_txt'' else [])
         in modelName @ ''_'' @ versionName @ fileSuffix @ ''.'' @ ext)
      else fileName)"


section \<open>Sample inputs\<close>

text \<open>Concrete values at which the theorems below are instantiated: a vocabulary of file
  types holding the types that the sources name, a store with one model, its two
  versions and the file of the first version, and a payload.\<close>

definition sample_fileTypes :: "string list" where
  "sample_fileTypes =
     [''Model'', ''Pruned Model'', ''Negative'', ''Training Data'', ''VAE'', ''Text Encoder'']"

definition sample_cfg :: config where
  "sample_cfg =
     \<lparr>S3_UPLOAD_BUCKET = ''civitai-prod'', modelFileTypes = sample_fileTypes, now = 1000\<rparr>"

definition sample_file :: ModelFile where
  "sample_file =
     \<lparr>file_id = 7, file_name = ''a.ckpt'', file_url = ''https://tmp/a.ckpt'',
      file_type = ''Model'', file_format = PickleTensor, file_modelVersionId = 3,
      file_exists = None, file_pickleScanResult = Pending, file_pickleScanMessage = None,
      file_virusScanResult = Pending, file_virusScanMessage = None, file_scannedAt = None,
      file_rawScanResult = None\<rparr>"

definition sample_version :: ModelVersion where
  "sample_version =
     \<lparr>version_id = 3, version_name = ''v1'', version_modelId = 1, version_trainedWords = [],
      version_status = Published\<rparr>"

definition sample_model :: Model where
  "sample_model =
     \<lparr>model_id = 1, model_name = ''m'', model_type = Checkpoint, model_status = Published\<rparr>"

definition sample_db :: db where
  "sample_db =
     \<lparr>modelFiles = [sample_file],
      modelHashes = [\<lparr>hash_fileId = 7, hash_type = CRC32, hash_hash = ''0a0b''\<rparr>,
                     \<lparr>hash_fileId = 8, hash_type = SHA256, hash_hash = ''ffff''\<rparr>],
      modelVersions = [sample_version],
      models = [sample_model],
      oplog = []\<rparr>"

text \<open>The same store with a second version of the model, Published as well.\<close>

definition sample_db2 :: db where
  "sample_db2 =
     sample_db\<lparr>modelVersions :=
       [sample_version,
        \<lparr>version_id = 4, version_name = ''v2'', version_modelId = 1, version_trainedWords = [],
         version_status = Published\<rparr>]\<rparr>"

definition sample_scan :: ScanResult where
  "sample_scan =
     \<lparr>url = ''https://civitai-prod/a.ckpt'', fileExists = 1, picklescanExitCode = 0,
      picklescanOutput = None, picklescanGlobalImports = Some [],
      picklescanDangerousImports = Some [], clamscanExitCode = 0, clamscanOutput = [],
      hashes = Some [(SHA256, ''abc''), (AutoV1, ''dd'')]\<rparr>"

definition sample_req :: "ScannerTask list option \<Rightarrow> ScanResult \<Rightarrow> request" where
  "sample_req tasks body =
     \<lparr>req_method = ''POST'',
      req_query = \<lparr>q_modelVersionId = IntegerNumber 3, q_type = ''Model'', q_format = PickleTensor,
                    q_tasks = tasks\<rparr>,
      req_body = body\<rparr>"

text \<open>Payloads: the file is gone; the pickle scan is still pending; the pickle scan has
  succeeded and reports one global import, which is on the list of special imports.\<close>

definition gone_scan :: ScanResult where
  "gone_scan = sample_scan\<lparr>fileExists := 0\<rparr>"

definition pending_scan :: ScanResult where
  "pending_scan = sample_scan\<lparr>picklescanExitCode := - 1\<rparr>"

definition special_scan :: ScanResult where
  "special_scan =
     sample_scan\<lparr>picklescanGlobalImports :=
       Some [''pytorch_lightning.callbacks.model_checkpoint,ModelCheckpoint'']\<rparr>"

text \<open>A request with the default tasks for the key of another model version id.\<close>

definition other_req :: "number \<Rightarrow> request" where
  "other_req n =
     \<lparr>req_method = ''POST'',
      req_query = \<lparr>q_modelVersionId = n, q_type = ''Model'', q_format = PickleTensor,
                    q_tasks = None\<rparr>,
      req_body = sample_scan\<rparr>"


section \<open>Properties of the file name of a download\<close>

lemma split_on_not_Nil: "split_on c s \<noteq> []"
  by (induction s) (auto split: list.splits)

lemma split_on_no_sep: "c \<notin> set e \<Longrightarrow> split_on c e = [e]"
  by (induction e) auto

lemma split_on_two: "\<exists>p q ps. split_on c (xs @ c # ys) = p # q # ps"
proof (induction xs)
  case Nil
  obtain q ps where "split_on c ys = q # ps"
    using split_on_not_Nil [of c ys] by (cases "split_on c ys") auto
  then show ?case by simp
next
  case (Cons x xs)
  then show ?case by auto
qed

lemma pop_split_on_append: "pop (split_on c (xs @ c # ys)) = pop (split_on c ys)"
proof (induction xs)
  case Nil
  obtain q ps where "split_on c ys = q # ps"
    using split_on_not_Nil [of c ys] by (cases "split_on c ys") auto
  then show ?case by simp
next
  case (Cons x xs)
  obtain p q ps where "split_on c (xs @ c # ys) = p # q # ps"
    using split_on_two by blast
  with Cons show ?case by simp
qed

text \<open>\<open>ext_of\<close> is the extension: what follows the last dot.\<close>

lemma ext_of_extension: "CHR ''.'' \<notin> set e \<Longrightarrow> ext_of (base @ ''.'' @ e) = e"
  by (simp add: ext_of_def pop_split_on_append split_on_no_sep)

text \<open>
  C8, as amended. (a) With \<^verbatim>\<open>Negative\<close> in the vocabulary of file types: for a model of
  type TextualInversion whose version has the first trained word \<^verbatim>\<open>foo\<close>, a file of type
  \<^verbatim>\<open>Negative\<close> is named \<^verbatim>\<open>foo-neg.<ext>\<close>. (b) For a model that is not of type
  TextualInversion and a file whose type is in the vocabulary and is neither
  \<^verbatim>\<open>Training Data\<close> nor \<^verbatim>\<open>VAE\<close>: when the stored name contains \<^verbatim>\<open>-inpainting\<close>, the
  derived name is model name, underscore, version name, then \<^verbatim>\<open>-inpainting.<ext>\<close>, so it
  ends with the suffix before the extension.
\<close>

theorem getDownloadFilename_names:
  "(''Negative'' \<in> set fileTypes \<and> dl_model_type model = TextualInversion \<and>
     dl_trainedWords modelVersion = ''foo'' # ws \<and> dl_file_type mf = ''Negative'' \<longrightarrow>
     getDownloadFilename filenamize fileTypes model modelVersion mf =
       ''foo-neg.'' @ ext_of (dl_file_name mf)) \<and>
   (dl_file_type mf \<in> set fileTypes \<and> dl_model_type model \<noteq> TextualInversion \<and>
     dl_file_type mf \<noteq> ''Training Data'' \<and> dl_file_type mf \<noteq> ''VAE'' \<and>
     includes_str (dl_file_name mf) ''-inpainting'' \<longrightarrow>
     getDownloadFilename filenamize fileTypes model modelVersion mf =
       filenamize (dl_model_name model) @ ''_'' @
       replace_first (filenamize (dl_version_name modelVersion)) (filenamize (dl_model_name model)) @
       ''-inpainting.'' @ ext_of (dl_file_name mf) \<and>
     suffix (''-inpainting.'' @ ext_of (dl_file_name mf))
       (getDownloadFilename filenamize fileTypes model modelVersion mf))"
  by (simp add: getDownloadFilename_def Let_def suffix_def)

theorem getDownloadFilename_names_witness:
  "getDownloadFilename (\<lambda>s. s) sample_fileTypes
     \<lparr>dl_model_name = ''emb'', dl_model_type = TextualInversion\<rparr>
     \<lparr>dl_version_name = ''v1'', dl_trainedWords = [''foo'']\<rparr>
     \<lparr>dl_file_name = ''emb.pt'', dl_file_type = ''Negative''\<rparr> = ''foo-neg.pt'' \<and>
   includes_str ''mymodel-inpainting.ckpt'' ''-inpainting'' \<and>
   getDownloadFilename (\<lambda>s. s) sample_fileTypes
     \<lparr>dl_model_name = ''mymodel'', dl_model_type = Checkpoint\<rparr>
     \<lparr>dl_version_name = ''v2'', dl_trainedWords = []\<rparr>
     \<lparr>dl_file_name = ''mymodel-inpainting.ckpt'', dl_file_type = ''Model''\<rparr>
     = ''mymodel_v2-inpainting.ckpt''"
  using
    getDownloadFilename_names [where fileTypes = sample_fileTypes and filenamize = "\<lambda>s. s"
      and model = "\<lparr>dl_model_name = ''emb'', dl_model_type = TextualInversion\<rparr>"
      and modelVersion = "\<lparr>dl_version_name = ''v1'', dl_trainedWords = [''foo'']\<rparr>"
      and mf = "\<lparr>dl_file_name = ''emb.pt'', dl_file_type = ''Negative''\<rparr>" and ws = "[]"]
    getDownloadFilename_names [where fileTypes = sample_fileTypes and filenamize = "\<lambda>s. s"
      and model = "\<lparr>dl_model_name = ''mymodel'', dl_model_type = Checkpoint\<rparr>"
      and modelVersion = "\<lparr>dl_version_name = ''v2'', dl_trainedWords = []\<rparr>"
      and mf = "\<lparr>dl_file_name = ''mymodel-inpainting.ckpt'', dl_file_type = ''Model''\<rparr>"]
  by (simp add: sample_fileTypes_def ext_of_def)

text \<open>
  C8 as stated fails for a file whose type is not in the vocabulary: its stored name is
  returned as it is. Here the model is a Checkpoint, the type \<^verbatim>\<open>Archive\<close> is neither
  \<^verbatim>\<open>Training Data\<close> nor \<^verbatim>\<open>VAE\<close>, the stored name contains \<^verbatim>\<open>-inpainting\<close> and has the
  extension \<^verbatim>\<open>ckpt\<close>, and the derived name does not end with \<^verbatim>\<open>-inpainting.ckpt\<close>.
\<close>

theorem getDownloadFilename_names_counterexample:
  "dl_model_type \<lparr>dl_model_name = ''mymodel'', dl_model_type = Checkpoint\<rparr> \<noteq> TextualInversion \<and>
   ''Archive'' \<noteq> ''Training Data'' \<and> ''Archive'' \<noteq> ''VAE'' \<and>
   includes_str ''mymodel-inpainting-fp16.ckpt'' ''-inpainting'' \<and>
   ext_of ''mymodel-inpainting-fp16.ckpt'' = ''ckpt'' \<and>
   getDownloadFilename (\<lambda>s. s) sample_fileTypes
     \<lparr>dl_model_name = ''mymodel'', dl_model_type = Checkpoint\<rparr>
     \<lparr>dl_version_name = ''v2'', dl_trainedWords = []\<rparr>
     \<lparr>dl_file_name = ''mymodel-inpainting-fp16.ckpt'', dl_file_type = ''Archive''\<rparr>
     = ''mymodel-inpainting-fp16.ckpt'' \<and>
   \<not> suffix ''-inpainting.ckpt''
     (getDownloadFilename (\<lambda>s. s) sample_fileTypes
       \<lparr>dl_model_name = ''mymodel'', dl_model_type = Checkpoint\<rparr>
       \<lparr>dl_version_name = ''v2'', dl_trainedWords = []\<rparr>
       \<lparr>dl_file_name = ''mymodel-inpainting-fp16.ckpt'', dl_file_type = ''Archive''\<rparr>)"
  by (simp add: getDownloadFilename_def Let_def sample_fileTypes_def ext_of_def suffix_to_prefix)

text \<open>
  C9. A file whose declared type is not in the vocabulary of file types keeps its stored
  name, whatever the model, the version and the trained words are.
\<close>

theorem getDownloadFilename_unknown_type:
  "dl_file_type mf \<notin> set fileTypes \<Longrightarrow>
   getDownloadFilename filenamize fileTypes model modelVersion mf = dl_file_name mf"
  by (simp add: getDownloadFilename_def Let_def)

theorem getDownloadFilename_unknown_type_witness:
  "''Archive'' \<notin> set sample_fileTypes \<and>
   getDownloadFilename (\<lambda>s. s) sample_fileTypes
     \<lparr>dl_model_name = ''emb'', dl_model_type = TextualInversion\<rparr>
     \<lparr>dl_version_name = ''v1'', dl_trainedWords = [''foo'']\<rparr>
     \<lparr>dl_file_name = ''weights.bin'', dl_file_type = ''Archive''\<rparr> = ''weights.bin''"
proof -
  have h: "dl_file_type \<lparr>dl_file_name = ''weights.bin'', dl_file_type = ''Archive''\<rparr>
             \<notin> set sample_fileTypes"
    by (simp add: sample_fileTypes_def)
  show ?thesis
    using h getDownloadFilename_unknown_type [OF h, of "\<lambda>s. s"
      "\<lparr>dl_model_name = ''emb'', dl_model_type = TextualInversion\<rparr>"
      "\<lparr>dl_version_name = ''v1'', dl_trainedWords = [''foo'']\<rparr>"]
    by simp
qed


section \<open>The unpublish cascade\<close>

lemma find_set_version_status:
  "find (\<lambda>v. version_id v = vid) (set_version_status w st vs) =
     map_option (\<lambda>v. if version_id v = w then v\<lparr>version_status := st\<rparr> else v)
       (find (\<lambda>v. version_id v = vid) vs)"
  by (induction vs) (auto simp: set_version_status_def)

lemma set_version_status_idem:
  "set_version_status vid st (set_version_status vid st vs) = set_version_status vid st vs"
  by (induction vs) (auto simp: set_version_status_def)

lemma set_model_status_idem:
  "set_model_status mid st (set_model_status mid st ms) = set_model_status mid st ms"
  by (induction ms) (auto simp: set_model_status_def)

lemma model_id_set_model_status:
  "(\<exists>x \<in> set (set_model_status mid st ms). model_id x = k) \<longleftrightarrow> (\<exists>x \<in> set ms. model_id x = k)"
  by (induction ms) (auto simp: set_model_status_def)

lemma unpublish_missing:
  assumes "find (\<lambda>v. version_id v = vid) (modelVersions d) = None"
  shows "unpublish vid d = (Inl RecordNotFound, d\<lparr>oplog := oplog d @ [VersionUpdate vid Draft]\<rparr>)"
  using assms by (auto simp: unpublish_def modelVersion_update_def record_op_def Let_def find_None_iff)

lemma unpublish_found:
  assumes "find (\<lambda>v. version_id v = vid) (modelVersions d) = Some v"
  shows "unpublish vid d =
     (let m = version_modelId v;
          cnt = (if \<exists>x \<in> set (models d). model_id x = m
                 then Some (count_published m (set_version_status vid Draft (modelVersions d)))
                 else None);
          d1 = d\<lparr>modelVersions := set_version_status vid Draft (modelVersions d)\<rparr>
      in if m = 0 then
           (Inr (), d1\<lparr>oplog := oplog d @ [VersionUpdate vid Draft, VersionFindUnique vid]\<rparr>)
         else if cnt = Some 0 then
           (Inr (), d1\<lparr>models := set_model_status m Unpublished (models d),
                        oplog := oplog d @ [VersionUpdate vid Draft, VersionFindUnique vid,
                                   ModelCountPublished m cnt, ModelUpdate m Unpublished]\<rparr>)
         else
           (Inr (), d1\<lparr>oplog := oplog d @ [VersionUpdate vid Draft, VersionFindUnique vid,
                                   ModelCountPublished m cnt]\<rparr>))"
proof -
  have ex: "\<exists>v \<in> set (modelVersions d). version_id v = vid"
    using assms by (auto simp: find_Some_iff)
  have f: "find (\<lambda>v. version_id v = vid) (set_version_status vid Draft (modelVersions d))
             = Some (v\<lparr>version_status := Draft\<rparr>)"
    using assms by (auto simp: find_set_version_status dest: find_Some_iff[THEN iffD1])
  show ?thesis
    using ex f
    by (simp add: unpublish_def modelVersion_update_def modelVersion_findUnique_def
        model_countPublished_def model_update_def record_op_def Let_def)
qed

lemma set_version_status_sets:
  assumes "w \<in> set (set_version_status vid st vs)" and "version_id w = vid"
  shows "version_status w = st"
proof -
  have "w \<in> (\<lambda>v. if version_id v = vid then v\<lparr>version_status := st\<rparr> else v) ` set vs"
    using assms(1) by (simp only: set_version_status_def set_map)
  then obtain x where x: "w = (if version_id x = vid then x\<lparr>version_status := st\<rparr> else x)"
    by blast
  show ?thesis
  proof (cases "version_id x = vid")
    case True
    with x show ?thesis by simp
  next
    case False
    with x assms(2) show ?thesis by simp
  qed
qed


lemma unpublish_twice:
  assumes Some: "find (\<lambda>v. version_id v = vid) (modelVersions d) = Some v"
  shows "\<exists>M ops.
     unpublish vid d =
       (Inr (), d\<lparr>modelVersions := set_version_status vid Draft (modelVersions d),
                   models := M, oplog := oplog d @ ops\<rparr>) \<and>
     unpublish vid (d\<lparr>modelVersions := set_version_status vid Draft (modelVersions d),
                   models := M, oplog := oplog d @ ops\<rparr>) =
       (Inr (), d\<lparr>modelVersions := set_version_status vid Draft (modelVersions d),
                   models := M, oplog := (oplog d @ ops) @ ops\<rparr>)"
proof -
  let ?vs = "set_version_status vid Draft (modelVersions d)"
  let ?m = "version_modelId v"
  let ?v' = "v\<lparr>version_status := Draft\<rparr>"
  let ?cnt = "if \<exists>x \<in> set (models d). model_id x = ?m
                 then Some (count_published ?m ?vs) else None"
  have f: "find (\<lambda>v. version_id v = vid) ?vs = Some ?v'"
    using Some by (auto simp: find_set_version_status dest: find_Some_iff[THEN iffD1])
  have f1: "find (\<lambda>v. version_id v = vid)
              (modelVersions (d\<lparr>modelVersions := ?vs, models := M, oplog := L\<rparr>)) = Some ?v'" for M L
    using f by simp
  have f2: "find (\<lambda>v. version_id v = vid)
              (modelVersions (d\<lparr>modelVersions := ?vs, oplog := L\<rparr>)) = Some ?v'" for L
    using f by simp
  show ?thesis
  proof (cases "?m = 0")
    case True
    have u1: "unpublish vid d = (Inr (), d\<lparr>modelVersions := ?vs, models := models d,
                 oplog := oplog d @ [VersionUpdate vid Draft, VersionFindUnique vid]\<rparr>)"
      using True by (simp add: unpublish_found[OF Some] Let_def)
    have u2: "unpublish vid (d\<lparr>modelVersions := ?vs, models := models d,
                 oplog := oplog d @ [VersionUpdate vid Draft, VersionFindUnique vid]\<rparr>) =
        (Inr (), d\<lparr>modelVersions := ?vs, models := models d,
                 oplog := (oplog d @ [VersionUpdate vid Draft, VersionFindUnique vid])
                            @ [VersionUpdate vid Draft, VersionFindUnique vid]\<rparr>)"
      using True by (simp add: unpublish_found[OF f2] Let_def set_version_status_idem)
    from u1 u2 show ?thesis by blast
  next
    case nz: False
    show ?thesis
    proof (cases "?cnt = Some 0")
      case True
      then have ex: "\<exists>x \<in> set (models d). model_id x = ?m" and c0: "count_published ?m ?vs = 0"
        by (simp_all split: if_splits)
      let ?ops = "[VersionUpdate vid Draft, VersionFindUnique vid,
                   ModelCountPublished ?m (Some 0), ModelUpdate ?m Unpublished]"
      have u1: "unpublish vid d = (Inr (), d\<lparr>modelVersions := ?vs,
                 models := set_model_status ?m Unpublished (models d),
                 oplog := oplog d @ ?ops\<rparr>)"
        using nz ex c0 by (simp add: unpublish_found[OF Some] Let_def)
      have u2: "unpublish vid (d\<lparr>modelVersions := ?vs,
                 models := set_model_status ?m Unpublished (models d),
                 oplog := oplog d @ ?ops\<rparr>) =
        (Inr (), d\<lparr>modelVersions := ?vs,
                 models := set_model_status ?m Unpublished (models d),
                 oplog := (oplog d @ ?ops) @ ?ops\<rparr>)"
        using nz ex c0
        by (simp add: unpublish_found[OF f1] Let_def set_version_status_idem
            set_model_status_idem model_id_set_model_status)
      from u1 u2 show ?thesis by blast
    next
      case False
      let ?ops = "[VersionUpdate vid Draft, VersionFindUnique vid, ModelCountPublished ?m ?cnt]"
      have u1: "unpublish vid d = (Inr (), d\<lparr>modelVersions := ?vs, models := models d,
                 oplog := oplog d @ ?ops\<rparr>)"
        using nz False by (simp add: unpublish_found[OF Some] Let_def)
      have u2: "unpublish vid (d\<lparr>modelVersions := ?vs, models := models d,
                 oplog := oplog d @ ?ops\<rparr>) =
        (Inr (), d\<lparr>modelVersions := ?vs, models := models d,
                 oplog := (oplog d @ ?ops) @ ?ops\<rparr>)"
        using nz False
        by (cases "\<exists>x \<in> set (models d). model_id x = ?m")
           (simp_all add: unpublish_found[OF f2] Let_def set_version_status_idem)
      from u1 u2 show ?thesis by blast
    qed
  qed
qed


section \<open>The steps of the intake handler\<close>

lemma WebhookEndpoint_ok:
  assumes "WebhookEndpoint cfg req d = (Inr resp, d')" and "res_status resp = 200"
  obtains mf data1 sr1 data2 d2 d3 where
     "req_method req = ''POST''"
     "q_type (req_query req) \<in> set (modelFileTypes cfg)"
     "Int_column (q_modelVersionId (req_query req)) =
        Some (int_value (q_modelVersionId (req_query req)))"
     "find (has_key (int_value (q_modelVersionId (req_query req))) (q_type (req_query req)) (q_format (req_query req)))
       (modelFiles d) = Some mf"
     "file_url mf \<noteq> []" "file_id mf \<noteq> 0"
     "(if Scan \<in> set (tasks_of (req_query req)) then scan_task cfg (req_body req) empty_data
      else Inr (empty_data, req_body req)) = Inr (data1, sr1)"
     "(if Import \<in> set (tasks_of (req_query req))
      then import_task cfg (int_value (q_modelVersionId (req_query req))) (file_url mf) sr1 data1
             (record_op (FileFindUnique (q_modelVersionId (req_query req)) (q_type (req_query req))
                (q_format (req_query req))) d)
      else (Inr data1,
            record_op (FileFindUnique (q_modelVersionId (req_query req)) (q_type (req_query req))
                (q_format (req_query req))) d)) = (Inr data2, d2)"
     "(if has_keys data2
      then modelFile_update (int_value (q_modelVersionId (req_query req))) (q_type (req_query req))
             (q_format (req_query req)) data2 d2
      else (Inr (), d2)) = (Inr (), d3)"
     "(case (Hash \<in> set (tasks_of (req_query req)), hashes sr1) of
        (True, Some entries) \<Rightarrow> hash_task (file_id mf) entries d3
      | _ \<Rightarrow> (Inr (), d3)) = (Inr (), d')"
proof -
  let ?q = "req_query req"
  let ?d0 = "record_op (FileFindUnique (q_modelVersionId ?q) (q_type ?q) (q_format ?q)) d"
  from assms have post: "req_method req = ''POST''"
    unfolding WebhookEndpoint_def by (auto split: if_splits)
  from assms post have ty: "q_type ?q \<in> set (modelFileTypes cfg)"
    and nn: "q_modelVersionId ?q \<noteq> NaN"
    unfolding WebhookEndpoint_def querySchema_parse_def by (auto split: if_splits)
  from assms post ty nn obtain i where ic: "Int_column (q_modelVersionId ?q) = Some i"
    unfolding WebhookEndpoint_def querySchema_parse_def modelFile_findUnique_def Let_def
    by (cases "Int_column (q_modelVersionId ?q)") auto
  from ic have iv: "int_value (q_modelVersionId ?q) = i"
    by (auto simp: Int_column_def int_value_def split: number.splits if_splits)
  obtain found where fnd: "find (has_key i (q_type ?q) (q_format ?q)) (modelFiles d) = found"
    by simp
  from assms post ty nn ic fnd obtain mf where mf: "found = Some mf" "file_url mf \<noteq> []" "file_id mf \<noteq> 0"
    unfolding WebhookEndpoint_def querySchema_parse_def modelFile_findUnique_def Let_def
    by (cases found) (auto split: if_splits)
  let ?s1 = "(if Scan \<in> set (tasks_of ?q) then scan_task cfg (req_body req) empty_data
      else Inr (empty_data, req_body req))"
  have body: "and_then (?s1, ?d0)
     (\<lambda>(data1, scanResult1) d1.
         and_then
           (if Import \<in> set (tasks_of ?q)
            then import_task cfg (int_value (q_modelVersionId ?q)) (file_url mf) scanResult1 data1 d1
            else (Inr data1, d1))
           (\<lambda>data2 d2.
              and_then
                (if has_keys data2
                 then modelFile_update (int_value (q_modelVersionId ?q)) (q_type ?q) (q_format ?q) data2 d2
                 else (Inr (), d2))
                (\<lambda>_ d3.
                   and_then
                     (case (Hash \<in> set (tasks_of ?q), hashes scanResult1) of
                        (True, Some entries) \<Rightarrow> hash_task (file_id mf) entries d3
                      | _ \<Rightarrow> (Inr (), d3))
                     (\<lambda>_ d4. (Inr \<lparr>res_status = 200, res_json = OkJson\<rparr>, d4)))))
     = (Inr resp, d')"
    using assms(1) post ty nn ic fnd mf
    unfolding WebhookEndpoint_def querySchema_parse_def modelFile_findUnique_def Let_def
    by (simp split: if_splits)
  then obtain data1 sr1 where s1: "?s1 = Inr (data1, sr1)"
    unfolding and_then_def by (cases ?s1) (auto split: prod.splits)
  let ?s2 = "(if Import \<in> set (tasks_of ?q)
            then import_task cfg (int_value (q_modelVersionId ?q)) (file_url mf) sr1 data1 ?d0
            else (Inr data1, ?d0))"
  obtain r2 d2 where s2': "?s2 = (r2, d2)" by (cases ?s2) auto
  with body s1 obtain data2 where s2: "?s2 = (Inr data2, d2)"
    unfolding and_then_def by (cases r2) (auto split: prod.splits sum.splits)
  let ?s3 = "(if has_keys data2
                 then modelFile_update (int_value (q_modelVersionId ?q)) (q_type ?q) (q_format ?q) data2 d2
                 else (Inr (), d2))"
  obtain r3 d3 where s3': "?s3 = (r3, d3)" by (cases ?s3) auto
  with body s1 s2 have s3: "?s3 = (Inr (), d3)"
    unfolding and_then_def by (cases r3) (auto split: prod.splits sum.splits)
  let ?s4 = "(case (Hash \<in> set (tasks_of ?q), hashes sr1) of
                        (True, Some entries) \<Rightarrow> hash_task (file_id mf) entries d3
                      | _ \<Rightarrow> (Inr (), d3))"
  obtain r4 d4 where s4': "?s4 = (r4, d4)" by (cases ?s4) auto
  with body s1 s2 s3 have s4: "?s4 = (Inr (), d')"
    unfolding and_then_def by (cases r4) (auto split: prod.splits sum.splits)
  show thesis
    using that[OF post ty _ _ mf(2,3) s1 s2 s3 s4] fnd mf(1) ic iv by simp
qed

lemma unpublish_frame:
  "modelFiles (snd (unpublish vid d)) = modelFiles d \<and>
   modelHashes (snd (unpublish vid d)) = modelHashes d"
proof (cases "find (\<lambda>v. version_id v = vid) (modelVersions d)")
  case None
  then show ?thesis by (simp add: unpublish_missing)
next
  case (Some v)
  then show ?thesis by (simp add: unpublish_found Let_def)
qed

lemma examine_preserves:
  assumes "examinePickleScanMessage sr = Inr (ex, sr1)"
  shows "url sr1 = url sr \<and> fileExists sr1 = fileExists sr \<and> hashes sr1 = hashes sr"
  using assms unfolding examinePickleScanMessage_def Let_def
  by (auto split: if_splits sum.splits prod.splits)

lemma scan_task_preserves:
  assumes "scan_task cfg sr data = Inr (data1, sr1)"
  shows "url sr1 = url sr \<and> fileExists sr1 = fileExists sr \<and> hashes sr1 = hashes sr \<and>
         data_exists data1 = data_exists data \<and> data_url data1 = data_url data"
proof -
  obtain ex sr0 where e: "examinePickleScanMessage sr = Inr (ex, sr0)"
    using assms unfolding scan_task_def Let_def by (auto split: sum.splits)
  from examine_preserves[OF e] assms e show ?thesis
    unfolding scan_task_def Let_def by (auto split: if_splits)
qed

lemma scan_step_preserves:
  assumes "(if c then scan_task cfg sr empty_data else Inr (empty_data, sr)) = Inr (data1, sr1)"
  shows "url sr1 = url sr \<and> fileExists sr1 = fileExists sr \<and> hashes sr1 = hashes sr \<and>
         data_exists data1 = Absent \<and> data_url data1 = Absent"
proof (cases c)
  case True
  with assms scan_task_preserves[of cfg sr empty_data data1 sr1] show ?thesis
    by (simp add: empty_data_def)
next
  case False
  with assms show ?thesis by (auto simp: empty_data_def)
qed

lemma import_task_result:
  assumes "import_task cfg vid u sr data d = (Inr data2, d2)"
  shows "modelFiles d2 = modelFiles d \<and> modelHashes d2 = modelHashes d \<and>
         data_exists data2 = Value (fileExists sr = 1) \<and>
         data_url data2 =
           (if fileExists sr = 1 \<and> \<not> includes_str u (S3_UPLOAD_BUCKET cfg) \<and>
               includes_str (url sr) (S3_UPLOAD_BUCKET cfg)
            then Value (url sr) else data_url data) \<and>
         (if fileExists sr = 1 then d2 = d else unpublish vid d = (Inr (), d2))"
proof (cases "fileExists sr = 1")
  case True
  with assms show ?thesis unfolding import_task_def Let_def by auto
next
  case False
  obtain r d1 where u: "unpublish vid d = (r, d1)" by (cases "unpublish vid d") auto
  with assms False have r: "r = Inr ()" and d1: "d1 = d2"
    unfolding import_task_def Let_def and_then_def by (auto split: sum.splits)
  have "data2 = data\<lparr>data_exists := Value False\<rparr>"
    using assms False u unfolding import_task_def Let_def and_then_def by (auto split: sum.splits)
  with False r d1 u unpublish_frame[of vid d] show ?thesis by simp
qed

lemma find_update_files:
  "find (has_key vid ty fmt) (map (\<lambda>f. if has_key vid ty fmt f then apply_data data f else f) fs)
     = map_option (apply_data data) (find (has_key vid ty fmt) fs)"
  by (induction fs) (auto simp: has_key_def apply_data_def)

lemma modelFile_update_result:
  assumes "modelFile_update vid ty fmt data d = (Inr (), d')"
  shows "modelFiles d' = map (\<lambda>f. if has_key vid ty fmt f then apply_data data f else f) (modelFiles d) \<and>
         modelHashes d' = modelHashes d \<and> modelVersions d' = modelVersions d \<and> models d' = models d \<and>
         oplog d' = oplog d @ [FileUpdate vid ty fmt]"
  using assms unfolding modelFile_update_def Let_def record_op_def
  by (auto split: if_splits)

lemma hash_task_result:
  assumes "hash_task fid es d = (Inr (), d')"
  shows "modelHashes d' =
           filter (\<lambda>h. hash_fileId h \<noteq> fid) (modelHashes d) @
           map (\<lambda>(type, hash). \<lparr>hash_fileId = fid, hash_type = type, hash_hash = hash\<rparr>) es \<and>
         modelFiles d' = modelFiles d \<and> modelVersions d' = modelVersions d \<and> models d' = models d \<and>
         distinct (map fst es)"
proof -
  let ?mk = "\<lambda>(type, hash). \<lparr>hash_fileId = fid, hash_type = type, hash_hash = hash\<rparr>"
  have k: "map hash_key (map ?mk es) = map (\<lambda>e. (fid, fst e)) es"
    by (induction es) (auto simp: hash_key_def)
  have inj: "distinct (map (\<lambda>e. (fid, fst e)) es) \<Longrightarrow> distinct (map fst es)"
    by (induction es) auto
  from assms have "distinct (map hash_key (map ?mk es))"
    unfolding hash_task_def modelHash_createMany_def modelHash_deleteMany_def Let_def record_op_def
    by (auto split: if_splits)
  then have "distinct (map (\<lambda>e. (fid, fst e)) es)" by (simp only: k)
  then have di: "distinct (map fst es)" by (rule inj)
  from assms di show ?thesis
    unfolding hash_task_def modelHash_createMany_def modelHash_deleteMany_def Let_def record_op_def
    by (auto split: if_splits)
qed

lemma record_op_simps [simp]:
  "modelFiles (record_op op d) = modelFiles d"
  "modelHashes (record_op op d) = modelHashes d"
  "modelVersions (record_op op d) = modelVersions d"
  "models (record_op op d) = models d"
  "oplog (record_op op d) = oplog d @ [op]"
  by (simp_all add: record_op_def)

lemma import_step:
  assumes "(if c then import_task cfg vid u sr data d0 else (Inr data, d0)) = (Inr data2, d2)"
  shows "modelFiles d2 = modelFiles d0 \<and> modelHashes d2 = modelHashes d0 \<and>
         (c \<longrightarrow> data_exists data2 = Value (fileExists sr = 1) \<and>
                data_url data2 =
                  (if fileExists sr = 1 \<and> \<not> includes_str u (S3_UPLOAD_BUCKET cfg) \<and>
                      includes_str (url sr) (S3_UPLOAD_BUCKET cfg)
                   then Value (url sr) else data_url data) \<and>
                (if fileExists sr = 1 then d2 = d0 else unpublish vid d0 = (Inr (), d2)))"
proof (cases c)
  case True
  with assms import_task_result[of cfg vid u sr data d0 data2 d2] show ?thesis by simp
next
  case False
  with assms show ?thesis by simp
qed

lemma update_step:
  assumes "(if has_keys data2 then modelFile_update vid ty fmt data2 d2 else (Inr (), d2)) = (Inr (), d3)"
  shows "modelVersions d3 = modelVersions d2 \<and> models d3 = models d2 \<and>
         modelHashes d3 = modelHashes d2 \<and> prefix (oplog d2) (oplog d3) \<and>
         modelFiles d3 =
           (if has_keys data2
            then map (\<lambda>f. if has_key vid ty fmt f then apply_data data2 f else f) (modelFiles d2)
            else modelFiles d2)"
proof (cases "has_keys data2")
  case True
  with assms modelFile_update_result[of vid ty fmt data2 d2 d3] show ?thesis by simp
next
  case False
  with assms show ?thesis by simp
qed

lemma hash_task_oplog:
  "oplog (snd (hash_task fid es d)) = oplog d @ [HashDeleteMany fid, HashCreateMany fid (length es)]"
  unfolding hash_task_def modelHash_createMany_def modelHash_deleteMany_def Let_def record_op_def
  by simp

lemma hash_step:
  assumes "(case (b, h) of (True, Some entries) \<Rightarrow> hash_task fid entries d3 | _ \<Rightarrow> (Inr (), d3))
             = (Inr (), d')"
  shows "modelFiles d' = modelFiles d3 \<and> modelVersions d' = modelVersions d3 \<and>
         models d' = models d3 \<and> prefix (oplog d3) (oplog d') \<and>
         (\<forall>es. b \<and> h = Some es \<longrightarrow>
            distinct (map fst es) \<and>
            modelHashes d' =
              filter (\<lambda>x. hash_fileId x \<noteq> fid) (modelHashes d3) @
              map (\<lambda>(type, hash). \<lparr>hash_fileId = fid, hash_type = type, hash_hash = hash\<rparr>) es)"
proof (cases "b \<and> h \<noteq> None")
  case True
  then obtain es where es: "h = Some es" and b: b by auto
  with assms have ht: "hash_task fid es d3 = (Inr (), d')" by simp
  from hash_task_oplog[of fid es d3] ht
  have "oplog d' = oplog d3 @ [HashDeleteMany fid, HashCreateMany fid (length es)]" by simp
  then have "prefix (oplog d3) (oplog d')" by simp
  with hash_task_result[OF ht] es show ?thesis by simp
next
  case False
  with assms have "d' = d3" by (auto split: bool.splits option.splits)
  with False show ?thesis by auto
qed

lemma find_set_model_status:
  "find (\<lambda>m. model_id m = k) (set_model_status w st ms) =
     map_option (\<lambda>m. if model_id m = w then m\<lparr>model_status := st\<rparr> else m)
       (find (\<lambda>m. model_id m = k) ms)"
  by (induction ms) (auto simp: set_model_status_def)

lemma count_published_zero:
  assumes only: "\<And>w. w \<in> set vs \<Longrightarrow> version_modelId w = mid \<Longrightarrow>
                   version_status w = Published \<Longrightarrow> version_id w = vid"
  shows "count_published mid (set_version_status vid Draft vs) = 0"
proof -
  have "\<not> (version_modelId y = mid \<and> version_status y = Published)"
    if y: "y \<in> set (set_version_status vid Draft vs)" for y
  proof
    assume a: "version_modelId y = mid \<and> version_status y = Published"
    from y have "y \<in> (\<lambda>v. if version_id v = vid then v\<lparr>version_status := Draft\<rparr> else v) ` set vs"
      by (simp only: set_version_status_def set_map)
    then obtain x where x: "x \<in> set vs"
      and yx: "y = (if version_id x = vid then x\<lparr>version_status := Draft\<rparr> else x)"
      by blast
    show False
    proof (cases "version_id x = vid")
      case True
      with yx a show False by simp
    next
      case False
      with yx have "y = x" by simp
      with a x only[of x] False show False by blast
    qed
  qed
  then have "filter (\<lambda>v. version_modelId v = mid \<and> version_status v = Published)
               (set_version_status vid Draft vs) = []"
    by (simp only: filter_empty_conv) blast
  then show ?thesis by (simp only: count_published_def list.size)
qed

lemma count_published_pos:
  assumes w: "w \<in> set vs" "version_id w \<noteq> vid" "version_modelId w = mid"
             "version_status w = Published"
  shows "count_published mid (set_version_status vid st vs) \<noteq> 0"
proof -
  have "(if version_id w = vid then w\<lparr>version_status := st\<rparr> else w) \<in>
          (\<lambda>v. if version_id v = vid then v\<lparr>version_status := st\<rparr> else v) ` set vs"
    using w(1) by (rule imageI)
  with w(2) have "w \<in> set (set_version_status vid st vs)"
    by (simp add: set_version_status_def)
  with w(3,4) have "w \<in> set (filter (\<lambda>v. version_modelId v = mid \<and> version_status v = Published)
               (set_version_status vid st vs))" by simp
  then have "filter (\<lambda>v. version_modelId v = mid \<and> version_status v = Published)
               (set_version_status vid st vs) \<noteq> []" by (metis empty_iff list.set(1))
  then show ?thesis by (simp add: count_published_def)
qed

lemma filter_own_hashes:
  "filter (\<lambda>h. hash_fileId h = fid)
     (filter (\<lambda>x. hash_fileId x \<noteq> fid) hs @
      map (\<lambda>(type, hash). \<lparr>hash_fileId = fid, hash_type = type, hash_hash = hash\<rparr>) es)
   = map (\<lambda>(type, hash). \<lparr>hash_fileId = fid, hash_type = type, hash_hash = hash\<rparr>) es"
proof -
  have a: "filter (\<lambda>h. hash_fileId h = fid) (filter (\<lambda>x. hash_fileId x \<noteq> fid) hs) = []"
    by (induction hs) auto
  have b: "filter (\<lambda>h. hash_fileId h = fid)
             (map (\<lambda>(type, hash). \<lparr>hash_fileId = fid, hash_type = type, hash_hash = hash\<rparr>) es)
           = map (\<lambda>(type, hash). \<lparr>hash_fileId = fid, hash_type = type, hash_hash = hash\<rparr>) es"
    by (induction es) auto
  show ?thesis by (simp only: filter_append a b append_Nil)
qed

lemma filter_other_hashes:
  "filter (\<lambda>h. hash_fileId h \<noteq> fid)
     (filter (\<lambda>x. hash_fileId x \<noteq> fid) hs @
      map (\<lambda>(type, hash). \<lparr>hash_fileId = fid, hash_type = type, hash_hash = hash\<rparr>) es)
   = filter (\<lambda>x. hash_fileId x \<noteq> fid) hs"
proof -
  have b: "filter (\<lambda>h. hash_fileId h \<noteq> fid)
             (map (\<lambda>(type, hash). \<lparr>hash_fileId = fid, hash_type = type, hash_hash = hash\<rparr>) es)
           = []"
    by (induction es) auto
  show ?thesis by (simp add: b)
qed

lemma stored_pairs:
  "map (\<lambda>h. (hash_type h, hash_hash h))
     (map (\<lambda>(type, hash). \<lparr>hash_fileId = fid, hash_type = type, hash_hash = hash\<rparr>) es) = es"
  by (induction es) auto

lemma unpublish_ok_found:
  assumes "unpublish vid d = (Inr (), d2)"
  shows "\<exists>v. find (\<lambda>v. version_id v = vid) (modelVersions d) = Some v"
proof (cases "find (\<lambda>v. version_id v = vid) (modelVersions d)")
  case None
  from unpublish_missing[OF None] assms show ?thesis by simp
next
  case (Some v)
  then show ?thesis by blast
qed


section \<open>What the Scan task stores\<close>

lemma examine_no_imports:
  assumes "picklescanExitCode sr \<noteq> ScanExitCode_Pending"
    and "picklescanDangerousImports sr = None \<or> picklescanDangerousImports sr = Some []"
    and "picklescanGlobalImports sr = None \<or> picklescanGlobalImports sr = Some []"
  shows "examinePickleScanMessage sr =
           Inr (\<lparr>pickleScanMessage = Some ''No Pickle imports'', hasDanger = Some False\<rparr>, sr)"
  using assms unfolding examinePickleScanMessage_def Let_def by auto

lemma scan_task_result:
  assumes "scan_task cfg sr empty_data = Inr (data1, sr1)"
  shows "\<exists>ex sr0. examinePickleScanMessage sr = Inr (ex, sr0) \<and>
           sr1 = (if hasDanger ex = Some True
                  then sr0\<lparr>picklescanExitCode := ScanExitCode_Danger\<rparr> else sr0) \<and>
           data_pickleScanResult data1 = of_undefined (resultCodeMap (picklescanExitCode sr)) \<and>
           data_pickleScanMessage data1 = of_undefined (pickleScanMessage ex) \<and>
           data_rawScanResult data1 = Value sr1 \<and>
           data_scannedAt data1 = Value (now cfg)"
proof -
  obtain ex sr0 where e: "examinePickleScanMessage sr = Inr (ex, sr0)"
    using assms unfolding scan_task_def Let_def by (auto split: sum.splits)
  from assms e show ?thesis
    unfolding scan_task_def Let_def by (auto split: if_splits)
qed

lemma import_step_data:
  assumes "(if c then import_task cfg vid u sr data d0 else (Inr data, d0)) = (Inr data2, d2)"
  shows "data_pickleScanResult data2 = data_pickleScanResult data \<and>
         data_pickleScanMessage data2 = data_pickleScanMessage data \<and>
         data_rawScanResult data2 = data_rawScanResult data \<and>
         data_scannedAt data2 = data_scannedAt data"
proof (cases c)
  case True
  with assms have i: "import_task cfg vid u sr data d0 = (Inr data2, d2)" by simp
  obtain r d1 where u: "unpublish vid d0 = (r, d1)" by (cases "unpublish vid d0") auto
  from i u show ?thesis
    unfolding import_task_def Let_def and_then_def
    by (auto split: if_splits sum.splits)
next
  case False
  with assms show ?thesis by simp
qed

lemma scan_stored:
  assumes ok: "WebhookEndpoint cfg req d = (Inr resp, d')" "res_status resp = 200"
    and scan: "Scan \<in> set (tasks_of (req_query req))"
  shows "\<exists>mf data1 sr1 mf'.
     find (has_key (int_value (q_modelVersionId (req_query req))) (q_type (req_query req))
            (q_format (req_query req))) (modelFiles d) = Some mf \<and>
     scan_task cfg (req_body req) empty_data = Inr (data1, sr1) \<and>
     find (has_key (int_value (q_modelVersionId (req_query req))) (q_type (req_query req))
            (q_format (req_query req))) (modelFiles d') = Some mf' \<and>
     file_pickleScanResult mf' = assign (data_pickleScanResult data1) (file_pickleScanResult mf) \<and>
     file_pickleScanMessage mf' =
       (case data_pickleScanMessage data1 of Value m \<Rightarrow> Some m | _ \<Rightarrow> file_pickleScanMessage mf) \<and>
     file_rawScanResult mf' = Some sr1"
proof -
  let ?q = "req_query req"
  let ?vid = "int_value (q_modelVersionId ?q)"
  let ?d0 = "record_op (FileFindUnique (q_modelVersionId ?q) (q_type ?q) (q_format ?q)) d"
  from ok obtain mf data1 sr1 data2 d2 d3 where
    f: "find (has_key ?vid (q_type ?q) (q_format ?q)) (modelFiles d) = Some mf" and
    s1: "(if Scan \<in> set (tasks_of ?q) then scan_task cfg (req_body req) empty_data
          else Inr (empty_data, req_body req)) = Inr (data1, sr1)" and
    s2: "(if Import \<in> set (tasks_of ?q)
          then import_task cfg ?vid (file_url mf) sr1 data1 ?d0
          else (Inr data1, ?d0)) = (Inr data2, d2)" and
    s3: "(if has_keys data2
          then modelFile_update ?vid (q_type ?q) (q_format ?q) data2 d2
          else (Inr (), d2)) = (Inr (), d3)" and
    s4: "(case (Hash \<in> set (tasks_of ?q), hashes sr1) of
            (True, Some entries) \<Rightarrow> hash_task (file_id mf) entries d3
          | _ \<Rightarrow> (Inr (), d3)) = (Inr (), d')"
    by (rule WebhookEndpoint_ok)
  from s1 scan have st: "scan_task cfg (req_body req) empty_data = Inr (data1, sr1)" by simp
  from scan_task_result[OF st] have r1: "data_rawScanResult data1 = Value sr1"
    and t1: "data_scannedAt data1 = Value (now cfg)" by auto
  note p2 = import_step[OF s2]
  note q2 = import_step_data[OF s2]
  note p3 = update_step[OF s3]
  note p4 = hash_step[OF s4]
  from q2 t1 have hk: "has_keys data2" by (simp add: has_keys_def)
  have files: "modelFiles d' =
      map (\<lambda>f. if has_key ?vid (q_type ?q) (q_format ?q) f then apply_data data2 f else f)
        (modelFiles d)"
    using p4 p3 p2 hk by simp
  have f': "find (has_key ?vid (q_type ?q) (q_format ?q)) (modelFiles d') = Some (apply_data data2 mf)"
    unfolding files find_update_files using f by simp
  have a: "file_pickleScanResult (apply_data data2 mf)
             = assign (data_pickleScanResult data1) (file_pickleScanResult mf)"
    using q2 by (simp add: apply_data_def)
  have b: "file_pickleScanMessage (apply_data data2 mf) =
       (case data_pickleScanMessage data1 of Value m \<Rightarrow> Some m | _ \<Rightarrow> file_pickleScanMessage mf)"
    using q2 by (simp add: apply_data_def assign_def split: field.splits)
  have c: "file_rawScanResult (apply_data data2 mf) = Some sr1"
    using q2 r1 by (simp add: apply_data_def assign_def)
  from f st f' a b c show ?thesis by blast
qed

text \<open>The verdict that is stored is the one of the exit code of the payload, whatever the
  imports are.\<close>

lemma pickle_verdict_is_exit_code:
  assumes ok: "WebhookEndpoint cfg req d = (Inr resp, d')" "res_status resp = 200"
    and scan: "Scan \<in> set (tasks_of (req_query req))"
    and code: "resultCodeMap (picklescanExitCode (req_body req)) = Some c"
  shows "\<exists>mf'.
     find (has_key (int_value (q_modelVersionId (req_query req))) (q_type (req_query req))
            (q_format (req_query req))) (modelFiles d') = Some mf' \<and>
     file_pickleScanResult mf' = c"
proof -
  from scan_stored[OF ok scan] obtain mf data1 sr1 mf' where
    f: "find (has_key (int_value (q_modelVersionId (req_query req))) (q_type (req_query req))
            (q_format (req_query req))) (modelFiles d) = Some mf" and
    st: "scan_task cfg (req_body req) empty_data = Inr (data1, sr1)" and
    f': "find (has_key (int_value (q_modelVersionId (req_query req))) (q_type (req_query req))
            (q_format (req_query req))) (modelFiles d') = Some mf'" and
    v: "file_pickleScanResult mf' = assign (data_pickleScanResult data1) (file_pickleScanResult mf)"
    by blast
  from scan_task_result[OF st] code have "data_pickleScanResult data1 = Value c"
    by (auto simp: of_undefined_def)
  with v have "file_pickleScanResult mf' = c" by (simp add: assign_def)
  with f' show ?thesis by blast
qed


section \<open>When the handler completes\<close>

lemma unpublish_ok:
  assumes "\<exists>v \<in> set (modelVersions d). version_id v = vid"
  shows "\<exists>d2. unpublish vid d = (Inr (), d2)"
proof -
  from assms obtain v where v: "find (\<lambda>v. version_id v = vid) (modelVersions d) = Some v"
    by (cases "find (\<lambda>v. version_id v = vid) (modelVersions d)") (auto simp: find_None_iff)
  show ?thesis
    unfolding unpublish_found[OF v] Let_def by (simp split: if_splits)
qed

lemma hash_task_ok:
  assumes "distinct (map fst es)" and nn: "\<And>e. e \<in> set es \<Longrightarrow> \<not> has_nul (snd e)"
  shows "\<exists>d'. hash_task fid es d = (Inr (), d')"
proof -
  let ?mk = "\<lambda>(type, hash). \<lparr>hash_fileId = fid, hash_type = type, hash_hash = hash\<rparr>"
  have k: "map hash_key (map ?mk es) = map (\<lambda>e. (fid, fst e)) es"
    by (induction es) (auto simp: hash_key_def)
  have "inj (\<lambda>t::ModelHashType. (fid, t))" by (simp add: inj_on_def)
  then have "distinct (map (\<lambda>t. (fid, t)) (map fst es))"
    using assms(1) by (simp add: distinct_map inj_on_def)
  then have d1: "distinct (map hash_key (map ?mk es))"
    unfolding k by (simp add: comp_def)
  have d2: "hash_key r \<notin> set (map hash_key (filter (\<lambda>h. hash_fileId h \<noteq> fid) hs))"
    if "r \<in> set (map ?mk es)" for r hs
    using that by (auto simp: hash_key_def)
  have d3: "\<not> (\<exists>r \<in> set (map ?mk es). has_nul (hash_hash r))"
    using nn by auto
  show ?thesis
    unfolding hash_task_def modelHash_createMany_def modelHash_deleteMany_def Let_def record_op_def
    using d1 d2 d3 by simp
qed

lemma modelFile_update_ok:
  assumes "find (has_key vid ty fmt) (modelFiles d) = Some mf" and "writable data"
  shows "\<exists>d'. modelFile_update vid ty fmt data d = (Inr (), d')"
proof -
  from assms(1) have "\<exists>f \<in> set (modelFiles d). has_key vid ty fmt f"
    by (auto simp: find_Some_iff)
  with assms(2) show ?thesis
    unfolding modelFile_update_def Let_def by simp
qed

lemma import_step_writable:
  assumes "(if c then import_task cfg vid u sr data d0 else (Inr data, d0)) = (Inr data2, d2)"
    and "writable data" and "\<not> has_nul (url sr)"
  shows "writable data2"
proof (cases c)
  case True
  with assms(1) have i: "import_task cfg vid u sr data d0 = (Inr data2, d2)" by simp
  obtain r d1 where un: "unpublish vid d0 = (r, d1)" by (cases "unpublish vid d0") auto
  from i un assms(2,3) show ?thesis
    unfolding import_task_def Let_def and_then_def writable_def
    by (auto split: if_splits sum.splits)
next
  case False
  with assms show ?thesis by simp
qed

text \<open>The handler completes, with status 200, when the request is a POST, its query
  parses, the number of the query is an id of the column, the file is found with a URL
  and an id, the Scan block does not throw and leaves values that the store accepts, the
  URL of the payload is one that the store accepts, the version exists when the file is
  gone, and the hash entries have distinct algorithms and hashes that the store accepts.\<close>

lemma WebhookEndpoint_completes:
  assumes post: "req_method req = ''POST''"
    and ty: "q_type (req_query req) \<in> set (modelFileTypes cfg)"
    and ic: "Int_column (q_modelVersionId (req_query req)) = Some vid"
    and f: "find (has_key vid (q_type (req_query req)) (q_format (req_query req)))
              (modelFiles d) = Some mf"
    and u: "file_url mf \<noteq> []" and i: "file_id mf \<noteq> 0"
    and sc: "Scan \<in> set (tasks_of (req_query req)) \<Longrightarrow>
               \<exists>data1 sr1. scan_task cfg (req_body req) empty_data = Inr (data1, sr1) \<and>
                            writable data1"
    and nu: "\<not> has_nul (url (req_body req))"
    and ve: "Import \<in> set (tasks_of (req_query req)) \<Longrightarrow> fileExists (req_body req) \<noteq> 1 \<Longrightarrow>
               \<exists>v \<in> set (modelVersions d). version_id v = vid"
    and hs: "\<And>es. Hash \<in> set (tasks_of (req_query req)) \<Longrightarrow> hashes (req_body req) = Some es \<Longrightarrow>
               distinct (map fst es) \<and> (\<forall>e \<in> set es. \<not> has_nul (snd e))"
  shows "\<exists>d'. WebhookEndpoint cfg req d = (Inr \<lparr>res_status = 200, res_json = OkJson\<rparr>, d')"
proof -
  let ?q = "req_query req"
  let ?d0 = "record_op (FileFindUnique (q_modelVersionId ?q) (q_type ?q) (q_format ?q)) d"
  let ?s1 = "(if Scan \<in> set (tasks_of ?q) then scan_task cfg (req_body req) empty_data
              else Inr (empty_data, req_body req))"
  from ic have iv: "int_value (q_modelVersionId ?q) = vid" and nn: "q_modelVersionId ?q \<noteq> NaN"
    by (auto simp: Int_column_def int_value_def split: number.splits if_splits)
  obtain data1 sr1 where s1: "?s1 = Inr (data1, sr1)" and w1: "writable data1"
  proof (cases "Scan \<in> set (tasks_of ?q)")
    case True
    from sc[OF True] True that show ?thesis by auto
  next
    case False
    have "writable empty_data" by (simp add: writable_def empty_data_def)
    with False that show ?thesis by simp
  qed
  note p1 = scan_step_preserves[OF s1]
  let ?s2 = "(if Import \<in> set (tasks_of ?q)
              then import_task cfg vid (file_url mf) sr1 data1 ?d0 else (Inr data1, ?d0))"
  obtain data2 d2 where s2: "?s2 = (Inr data2, d2)"
  proof (cases "Import \<in> set (tasks_of ?q)")
    case False
    with that show ?thesis by simp
  next
    case True
    show ?thesis
    proof (cases "fileExists sr1 = 1")
      case e: True
      with True that show ?thesis unfolding import_task_def Let_def by simp
    next
      case e: False
      with p1 have "fileExists (req_body req) \<noteq> 1" by simp
      from ve[OF True this] have "\<exists>v \<in> set (modelVersions ?d0). version_id v = vid" by simp
      from unpublish_ok[OF this] obtain dd where "unpublish vid ?d0 = (Inr (), dd)" by blast
      with True e that show ?thesis unfolding import_task_def Let_def and_then_def by simp
    qed
  qed
  note p2 = import_step[OF s2]
  from p1 nu have "\<not> has_nul (url sr1)" by simp
  from import_step_writable[OF s2 w1 this] have w2: "writable data2" .
  let ?s3 = "(if has_keys data2 then modelFile_update vid (q_type ?q) (q_format ?q) data2 d2
              else (Inr (), d2))"
  have f2: "find (has_key vid (q_type ?q) (q_format ?q)) (modelFiles d2) = Some mf"
    using p2 f by simp
  obtain d3 where s3: "?s3 = (Inr (), d3)"
    using modelFile_update_ok[OF f2 w2] by (cases "has_keys data2") auto
  let ?s4 = "(case (Hash \<in> set (tasks_of ?q), hashes sr1) of
                (True, Some entries) \<Rightarrow> hash_task (file_id mf) entries d3
              | _ \<Rightarrow> (Inr (), d3))"
  obtain d4 where s4: "?s4 = (Inr (), d4)"
  proof (cases "Hash \<in> set (tasks_of ?q) \<and> hashes sr1 \<noteq> None")
    case True
    then obtain es where es: "hashes sr1 = Some es" by auto
    with p1 have "hashes (req_body req) = Some es" by simp
    with hs True have di: "distinct (map fst es)" and nh: "\<And>e. e \<in> set es \<Longrightarrow> \<not> has_nul (snd e)"
      by blast+
    from hash_task_ok[OF di nh, of "file_id mf" d3] es True that show ?thesis by auto
  next
    case False
    with that show ?thesis by (auto split: bool.splits option.splits)
  qed
  have body: "WebhookEndpoint cfg req d =
    and_then (?s1, ?d0)
     (\<lambda>(data1, scanResult1) d1.
         and_then
           (if Import \<in> set (tasks_of ?q)
            then import_task cfg (int_value (q_modelVersionId ?q)) (file_url mf) scanResult1 data1 d1
            else (Inr data1, d1))
           (\<lambda>data2 d2.
              and_then
                (if has_keys data2
                 then modelFile_update (int_value (q_modelVersionId ?q)) (q_type ?q) (q_format ?q) data2 d2
                 else (Inr (), d2))
                (\<lambda>_ d3.
                   and_then
                     (case (Hash \<in> set (tasks_of ?q), hashes scanResult1) of
                        (True, Some entries) \<Rightarrow> hash_task (file_id mf) entries d3
                      | _ \<Rightarrow> (Inr (), d3))
                     (\<lambda>_ d4. (Inr \<lparr>res_status = 200, res_json = OkJson\<rparr>, d4)))))"
    using post ty nn ic f u i
    unfolding WebhookEndpoint_def querySchema_parse_def modelFile_findUnique_def Let_def
    by simp
  have "WebhookEndpoint cfg req d = (Inr \<lparr>res_status = 200, res_json = OkJson\<rparr>, d4)"
    unfolding body iv
    by (simp only: s1 and_then_def prod.case sum.case s2 s3) (use s4 in simp)
  then show ?thesis by blast
qed


section \<open>The claims about the unpublish cascade\<close>

text \<open>
  C10. The unpublish cascade is idempotent. For every store and every model version id,
  a second run of \<^verbatim>\<open>unpublish\<close> after the first leaves the versions and the models (and
  the files and hashes) as the first run has left them, and ends as the first has ended.
  After one run every version with that id is Draft, whatever its status was. The second
  run issues the same calls as the first, with the same count of published versions, so
  it takes the same decision about the model.
\<close>

theorem unpublish_idempotent:
  "modelVersions (snd (unpublish vid (snd (unpublish vid d)))) = modelVersions (snd (unpublish vid d)) \<and>
   models (snd (unpublish vid (snd (unpublish vid d)))) = models (snd (unpublish vid d)) \<and>
   modelFiles (snd (unpublish vid (snd (unpublish vid d)))) = modelFiles (snd (unpublish vid d)) \<and>
   modelHashes (snd (unpublish vid (snd (unpublish vid d)))) = modelHashes (snd (unpublish vid d)) \<and>
   fst (unpublish vid (snd (unpublish vid d))) = fst (unpublish vid d) \<and>
   (\<forall>v \<in> set (modelVersions (snd (unpublish vid d))). version_id v = vid \<longrightarrow> version_status v = Draft) \<and>
   drop (length (oplog (snd (unpublish vid d)))) (oplog (snd (unpublish vid (snd (unpublish vid d)))))
     = drop (length (oplog d)) (oplog (snd (unpublish vid d)))"
proof (cases "find (\<lambda>v. version_id v = vid) (modelVersions d)")
  case None
  have u1: "unpublish vid d = (Inl RecordNotFound, d\<lparr>oplog := oplog d @ [VersionUpdate vid Draft]\<rparr>)"
    by (rule unpublish_missing[OF None])
  have n1: "find (\<lambda>v. version_id v = vid) (modelVersions (snd (unpublish vid d))) = None"
    using None by (simp add: u1)
  have no: "\<forall>v \<in> set (modelVersions d). version_id v \<noteq> vid"
    using None by (auto simp: find_None_iff)
  show ?thesis
    unfolding unpublish_missing[OF n1] unfolding u1 using no by simp
next
  case (Some v)
  let ?vs = "set_version_status vid Draft (modelVersions d)"
  obtain M ops where
    u1: "unpublish vid d = (Inr (), d\<lparr>modelVersions := ?vs, models := M, oplog := oplog d @ ops\<rparr>)" and
    u2: "unpublish vid (d\<lparr>modelVersions := ?vs, models := M, oplog := oplog d @ ops\<rparr>) =
           (Inr (), d\<lparr>modelVersions := ?vs, models := M, oplog := (oplog d @ ops) @ ops\<rparr>)"
    using unpublish_twice[OF Some] by blast
  have c6: "\<forall>w \<in> set (modelVersions (snd (unpublish vid d))). version_id w = vid \<longrightarrow> version_status w = Draft"
  proof (intro ballI impI)
    fix w assume "w \<in> set (modelVersions (snd (unpublish vid d)))" and "version_id w = vid"
    then show "version_status w = Draft"
      using set_version_status_sets[of w vid Draft "modelVersions d"] by (simp add: u1)
  qed
  have rest: "modelVersions (snd (unpublish vid (snd (unpublish vid d)))) = modelVersions (snd (unpublish vid d))"
    "models (snd (unpublish vid (snd (unpublish vid d)))) = models (snd (unpublish vid d))"
    "modelFiles (snd (unpublish vid (snd (unpublish vid d)))) = modelFiles (snd (unpublish vid d))"
    "modelHashes (snd (unpublish vid (snd (unpublish vid d)))) = modelHashes (snd (unpublish vid d))"
    "fst (unpublish vid (snd (unpublish vid d))) = fst (unpublish vid d)"
    "drop (length (oplog (snd (unpublish vid d)))) (oplog (snd (unpublish vid (snd (unpublish vid d)))))
       = drop (length (oplog d)) (oplog (snd (unpublish vid d)))"
    by (simp_all add: u1 u2)
  show ?thesis
    by (intro conjI rest c6)
qed

theorem unpublish_idempotent_witness:
  "sample_version\<lparr>version_status := Draft\<rparr> \<in> set (modelVersions (snd (unpublish 3 sample_db))) \<and>
   version_id (sample_version\<lparr>version_status := Draft\<rparr>) = 3 \<and>
   version_status (sample_version\<lparr>version_status := Draft\<rparr>) = Draft \<and>
   modelVersions (snd (unpublish 3 (snd (unpublish 3 sample_db))))
     = [sample_version\<lparr>version_status := Draft\<rparr>] \<and>
   models (snd (unpublish 3 (snd (unpublish 3 sample_db))))
     = [sample_model\<lparr>model_status := Unpublished\<rparr>] \<and>
   drop (length (oplog (snd (unpublish 3 sample_db))))
        (oplog (snd (unpublish 3 (snd (unpublish 3 sample_db)))))
     = [VersionUpdate 3 Draft, VersionFindUnique 3, ModelCountPublished 1 (Some 0),
        ModelUpdate 1 Unpublished]"
proof -
  have e1: "modelVersions (snd (unpublish 3 sample_db)) = [sample_version\<lparr>version_status := Draft\<rparr>]"
    by code_simp
  have e2: "models (snd (unpublish 3 sample_db)) = [sample_model\<lparr>model_status := Unpublished\<rparr>]"
    by code_simp
  have e3: "drop (length (oplog sample_db)) (oplog (snd (unpublish 3 sample_db)))
     = [VersionUpdate 3 Draft, VersionFindUnique 3, ModelCountPublished 1 (Some 0),
        ModelUpdate 1 Unpublished]"
    by code_simp
  have e4: "version_id (sample_version\<lparr>version_status := Draft\<rparr>) = 3"
    by (simp add: sample_version_def)
  show ?thesis
    using unpublish_idempotent [of 3 sample_db] e4
    by (simp only: e1 e2 e3) simp
qed


section \<open>The claims about the intake handler\<close>

text \<open>
  In the theorems below an intake call that completes is a call that the handler answers
  with status 200, the answer of its last line: the request is a POST, its query parses,
  the number of the query is an id, the file has been found under the key of the query
  with a URL and an id, and no step has thrown. The id of the query is then read with
  \<open>int_value\<close>.
\<close>

text \<open>
  C5, as amended. A POST whose query parses and whose key (model version, type, format)
  is the key of no file performs no write: the store is as before, and the only call of
  the query layer is the lookup, which is no write. When the model version id of the
  query is an integer in the range of the 32-bit Int column, the answer is 404 "File not
  found"; for any other number the lookup throws.
\<close>

theorem intake_file_not_found:
  assumes "req_method req = ''POST''"
    and "q_modelVersionId (req_query req) \<noteq> NaN"
    and "q_type (req_query req) \<in> set (modelFileTypes cfg)"
    and none: "\<forall>f \<in> set (modelFiles d).
                 \<not> (q_modelVersionId (req_query req) = IntegerNumber (file_modelVersionId f) \<and>
                    file_type f = q_type (req_query req) \<and>
                    file_format f = q_format (req_query req))"
  shows "snd (WebhookEndpoint cfg req d) =
           d\<lparr>oplog := oplog d @ [FileFindUnique (q_modelVersionId (req_query req))
                        (q_type (req_query req)) (q_format (req_query req))]\<rparr> \<and>
         \<not> is_write (FileFindUnique (q_modelVersionId (req_query req))
                        (q_type (req_query req)) (q_format (req_query req))) \<and>
         fst (WebhookEndpoint cfg req d) =
           (case Int_column (q_modelVersionId (req_query req)) of
              Some i \<Rightarrow> Inr \<lparr>res_status = 404, res_json = ErrorJson ''File not found''\<rparr>
            | None \<Rightarrow> Inl ValidationError)"
proof (cases "Int_column (q_modelVersionId (req_query req))")
  case None
  with assms(1-3) show ?thesis
    unfolding WebhookEndpoint_def querySchema_parse_def modelFile_findUnique_def Let_def
      record_op_def
    by simp
next
  case (Some i)
  then have n: "q_modelVersionId (req_query req) = IntegerNumber i"
    by (auto simp: Int_column_def split: number.splits if_splits)
  have "find (has_key i (q_type (req_query req)) (q_format (req_query req))) (modelFiles d) = None"
    unfolding find_None_iff has_key_def using none n by auto
  with assms(1-3) Some show ?thesis
    unfolding WebhookEndpoint_def querySchema_parse_def modelFile_findUnique_def Let_def
      record_op_def
    by simp
qed

theorem intake_file_not_found_witness:
  "file_modelVersionId sample_file = 3 \<and>
   Int_column (IntegerNumber 5) = Some 5 \<and>
   WebhookEndpoint sample_cfg (other_req (IntegerNumber 5)) sample_db =
     (Inr \<lparr>res_status = 404, res_json = ErrorJson ''File not found''\<rparr>,
      sample_db\<lparr>oplog := [FileFindUnique (IntegerNumber 5) ''Model'' PickleTensor]\<rparr>)"
proof -
  let ?req = "other_req (IntegerNumber 5)"
  have h1: "req_method ?req = ''POST''" by (simp add: other_req_def)
  have h2: "q_modelVersionId (req_query ?req) \<noteq> NaN" by (simp add: other_req_def)
  have h3: "q_type (req_query ?req) \<in> set (modelFileTypes sample_cfg)"
    by (simp add: other_req_def sample_cfg_def sample_fileTypes_def)
  have h4: "\<forall>f \<in> set (modelFiles sample_db).
              \<not> (q_modelVersionId (req_query ?req) = IntegerNumber (file_modelVersionId f) \<and>
                 file_type f = q_type (req_query ?req) \<and>
                 file_format f = q_format (req_query ?req))"
    by (simp add: other_req_def sample_db_def sample_file_def)
  have c: "Int_column (IntegerNumber 5) = Some 5" by (simp add: Int_column_def)
  have i: "file_modelVersionId sample_file = 3" by (simp add: sample_file_def)
  have lg: "oplog sample_db = []" by (simp add: sample_db_def)
  show ?thesis
    using intake_file_not_found [OF h1 h2 h3 h4] c i lg
    by (simp add: other_req_def prod_eq_iff)
qed

text \<open>
  C5 as stated fails for a model version id that is no id of the column: no file has the
  key, and the lookup throws where the claim has the answer 404. Here the id is
  2147483648, one above the largest 32-bit integer; a number that is not an integer
  fares the same.
\<close>

theorem intake_file_not_found_counterexample:
  "req_method (other_req (IntegerNumber 2147483648)) = ''POST'' \<and>
   find (has_key 2147483648 ''Model'' PickleTensor) (modelFiles sample_db) = None \<and>
   fst (WebhookEndpoint sample_cfg (other_req (IntegerNumber 2147483648)) sample_db)
     = Inl ValidationError \<and>
   fst (WebhookEndpoint sample_cfg (other_req NonInteger) sample_db) = Inl ValidationError"
  by code_simp

text \<open>
  C6. In an intake call that completes, with Import among its tasks and a payload that
  reports the file as existing: the URL stored for the file afterwards is the URL of the
  payload exactly when the URL stored before does not contain the bucket and the URL of
  the payload does; in every other case, so whenever the stored URL contains the bucket,
  it is the URL stored before.
\<close>

theorem import_url_promotion:
  assumes ok: "WebhookEndpoint cfg req d = (Inr resp, d')" "res_status resp = 200"
    and imp: "Import \<in> set (tasks_of (req_query req))"
    and ex: "fileExists (req_body req) = 1"
  shows "\<exists>mf mf'.
     find (has_key (int_value (q_modelVersionId (req_query req))) (q_type (req_query req))
            (q_format (req_query req))) (modelFiles d) = Some mf \<and>
     find (has_key (int_value (q_modelVersionId (req_query req))) (q_type (req_query req))
            (q_format (req_query req))) (modelFiles d') = Some mf' \<and>
     file_id mf' = file_id mf \<and>
     file_url mf' =
       (if \<not> includes_str (file_url mf) (S3_UPLOAD_BUCKET cfg) \<and>
           includes_str (url (req_body req)) (S3_UPLOAD_BUCKET cfg)
        then url (req_body req) else file_url mf)"
proof -
  let ?q = "req_query req"
  from ok obtain mf data1 sr1 data2 d2 d3 where
    f: "find (has_key (int_value (q_modelVersionId ?q)) (q_type ?q) (q_format ?q)) (modelFiles d) = Some mf" and
    s1: "(if Scan \<in> set (tasks_of ?q) then scan_task cfg (req_body req) empty_data
          else Inr (empty_data, req_body req)) = Inr (data1, sr1)" and
    s2: "(if Import \<in> set (tasks_of ?q)
          then import_task cfg (int_value (q_modelVersionId ?q)) (file_url mf) sr1 data1
                 (record_op (FileFindUnique (q_modelVersionId ?q) (q_type ?q) (q_format ?q)) d)
          else (Inr data1,
                record_op (FileFindUnique (q_modelVersionId ?q) (q_type ?q) (q_format ?q)) d))
         = (Inr data2, d2)" and
    s3: "(if has_keys data2
          then modelFile_update (int_value (q_modelVersionId ?q)) (q_type ?q) (q_format ?q) data2 d2
          else (Inr (), d2)) = (Inr (), d3)" and
    s4: "(case (Hash \<in> set (tasks_of ?q), hashes sr1) of
            (True, Some entries) \<Rightarrow> hash_task (file_id mf) entries d3
          | _ \<Rightarrow> (Inr (), d3)) = (Inr (), d')"
    by (rule WebhookEndpoint_ok)
  note p1 = scan_step_preserves[OF s1]
  note p2 = import_step[OF s2]
  note p3 = update_step[OF s3]
  note p4 = hash_step[OF s4]
  from p2 imp p1 ex have de: "data_exists data2 = Value True"
    and du: "data_url data2 =
       (if \<not> includes_str (file_url mf) (S3_UPLOAD_BUCKET cfg) \<and>
           includes_str (url (req_body req)) (S3_UPLOAD_BUCKET cfg)
        then Value (url (req_body req)) else Absent)"
    by simp_all
  from de have hk: "has_keys data2" by (simp add: has_keys_def)
  have files: "modelFiles d' =
      map (\<lambda>f. if has_key (int_value (q_modelVersionId ?q)) (q_type ?q) (q_format ?q) f
                then apply_data data2 f else f) (modelFiles d)"
    using p4 p3 p2 hk by simp
  have f': "find (has_key (int_value (q_modelVersionId ?q)) (q_type ?q) (q_format ?q)) (modelFiles d')
              = Some (apply_data data2 mf)"
    unfolding files find_update_files using f by simp
  have u: "file_url (apply_data data2 mf) =
       (if \<not> includes_str (file_url mf) (S3_UPLOAD_BUCKET cfg) \<and>
           includes_str (url (req_body req)) (S3_UPLOAD_BUCKET cfg)
        then url (req_body req) else file_url mf)"
    using du by (simp add: apply_data_def assign_def)
  have i: "file_id (apply_data data2 mf) = file_id mf" by (simp add: apply_data_def)
  from f f' u i show ?thesis by blast
qed

theorem import_url_promotion_witness:
  "fileExists sample_scan = 1 \<and>
   \<not> includes_str (file_url sample_file) (S3_UPLOAD_BUCKET sample_cfg) \<and>
   includes_str (url sample_scan) (S3_UPLOAD_BUCKET sample_cfg) \<and>
   (\<exists>mf'. find (has_key 3 ''Model'' PickleTensor)
            (modelFiles (snd (WebhookEndpoint sample_cfg (sample_req (Some [Import]) sample_scan)
               sample_db))) = Some mf' \<and>
          file_url mf' = ''https://civitai-prod/a.ckpt'')"
proof -
  let ?req = "sample_req (Some [Import]) sample_scan"
  let ?run = "WebhookEndpoint sample_cfg ?req sample_db"
  have run: "fst ?run = Inr \<lparr>res_status = 200, res_json = OkJson\<rparr>" by code_simp
  have ok: "?run = (Inr \<lparr>res_status = 200, res_json = OkJson\<rparr>, snd ?run)"
    using run by (metis prod.collapse)
  have h2: "res_status \<lparr>res_status = 200, res_json = OkJson\<rparr> = 200" by simp
  have h3: "Import \<in> set (tasks_of (req_query ?req))" by (simp add: sample_req_def int_value_def tasks_of_def)
  have h4: "fileExists (req_body ?req) = 1" by (simp add: sample_req_def int_value_def sample_scan_def)
  have a: "\<not> includes_str (file_url sample_file) (S3_UPLOAD_BUCKET sample_cfg)" by code_simp
  have b: "includes_str (url sample_scan) (S3_UPLOAD_BUCKET sample_cfg)" by code_simp
  have f: "find (has_key 3 ''Model'' PickleTensor) (modelFiles sample_db) = Some sample_file"
    by code_simp
  have u: "url sample_scan = ''https://civitai-prod/a.ckpt''" by (simp add: sample_scan_def)
  show ?thesis
    using import_url_promotion [OF ok h2 h3 h4] a b f u h4
    by (auto simp: sample_req_def int_value_def)
qed

text \<open>
  C4. In an intake call that completes, with Hash among its tasks and a payload that
  carries a hash map: afterwards the hash records stored for the file are exactly the
  entries of the map, one record for each entry (the algorithms of the entries are
  distinct), so every record stored before for the file is gone, for algorithms that the
  map lacks too. The records of other files are as before.
\<close>

theorem hash_records_replaced:
  assumes ok: "WebhookEndpoint cfg req d = (Inr resp, d')" "res_status resp = 200"
    and hash: "Hash \<in> set (tasks_of (req_query req))"
    and hs: "hashes (req_body req) = Some es"
  shows "\<exists>mf.
     find (has_key (int_value (q_modelVersionId (req_query req))) (q_type (req_query req))
            (q_format (req_query req))) (modelFiles d) = Some mf \<and>
     filter (\<lambda>h. hash_fileId h = file_id mf) (modelHashes d') =
       map (\<lambda>(type, hash). \<lparr>hash_fileId = file_id mf, hash_type = type, hash_hash = hash\<rparr>) es \<and>
     map (\<lambda>h. (hash_type h, hash_hash h))
       (filter (\<lambda>h. hash_fileId h = file_id mf) (modelHashes d')) = es \<and>
     distinct (map fst es) \<and>
     filter (\<lambda>h. hash_fileId h \<noteq> file_id mf) (modelHashes d') =
       filter (\<lambda>h. hash_fileId h \<noteq> file_id mf) (modelHashes d)"
proof -
  let ?q = "req_query req"
  from ok obtain mf data1 sr1 data2 d2 d3 where
    f: "find (has_key (int_value (q_modelVersionId ?q)) (q_type ?q) (q_format ?q)) (modelFiles d) = Some mf" and
    s1: "(if Scan \<in> set (tasks_of ?q) then scan_task cfg (req_body req) empty_data
          else Inr (empty_data, req_body req)) = Inr (data1, sr1)" and
    s2: "(if Import \<in> set (tasks_of ?q)
          then import_task cfg (int_value (q_modelVersionId ?q)) (file_url mf) sr1 data1
                 (record_op (FileFindUnique (q_modelVersionId ?q) (q_type ?q) (q_format ?q)) d)
          else (Inr data1,
                record_op (FileFindUnique (q_modelVersionId ?q) (q_type ?q) (q_format ?q)) d))
         = (Inr data2, d2)" and
    s3: "(if has_keys data2
          then modelFile_update (int_value (q_modelVersionId ?q)) (q_type ?q) (q_format ?q) data2 d2
          else (Inr (), d2)) = (Inr (), d3)" and
    s4: "(case (Hash \<in> set (tasks_of ?q), hashes sr1) of
            (True, Some entries) \<Rightarrow> hash_task (file_id mf) entries d3
          | _ \<Rightarrow> (Inr (), d3)) = (Inr (), d')"
    by (rule WebhookEndpoint_ok)
  note p1 = scan_step_preserves[OF s1]
  note p2 = import_step[OF s2]
  note p3 = update_step[OF s3]
  note p4 = hash_step[OF s4]
  from p1 hs have hs1: "hashes sr1 = Some es" by simp
  from p4 hash hs1 have di: "distinct (map fst es)"
    and mh: "modelHashes d' =
              filter (\<lambda>x. hash_fileId x \<noteq> file_id mf) (modelHashes d3) @
              map (\<lambda>(type, hash). \<lparr>hash_fileId = file_id mf, hash_type = type, hash_hash = hash\<rparr>) es"
    by blast+
  have m3: "modelHashes d3 = modelHashes d" using p3 p2 by simp
  have own: "filter (\<lambda>h. hash_fileId h = file_id mf) (modelHashes d') =
       map (\<lambda>(type, hash). \<lparr>hash_fileId = file_id mf, hash_type = type, hash_hash = hash\<rparr>) es"
    unfolding mh m3 by (rule filter_own_hashes)
  have pairs: "map (\<lambda>h. (hash_type h, hash_hash h))
       (filter (\<lambda>h. hash_fileId h = file_id mf) (modelHashes d')) = es"
    unfolding own by (rule stored_pairs)
  have other: "filter (\<lambda>h. hash_fileId h \<noteq> file_id mf) (modelHashes d') =
       filter (\<lambda>h. hash_fileId h \<noteq> file_id mf) (modelHashes d)"
    unfolding mh m3 by (simp only: filter_other_hashes)
  from f own pairs di other show ?thesis by blast
qed

theorem hash_records_replaced_witness:
  "hashes sample_scan = Some [(SHA256, ''abc''), (AutoV1, ''dd'')] \<and>
   filter (\<lambda>h. hash_fileId h = 7) (modelHashes sample_db)
     = [\<lparr>hash_fileId = 7, hash_type = CRC32, hash_hash = ''0a0b''\<rparr>] \<and>
   filter (\<lambda>h. hash_fileId h = 7)
     (modelHashes (snd (WebhookEndpoint sample_cfg (sample_req (Some [Hash]) sample_scan) sample_db)))
     = [\<lparr>hash_fileId = 7, hash_type = SHA256, hash_hash = ''abc''\<rparr>,
        \<lparr>hash_fileId = 7, hash_type = AutoV1, hash_hash = ''dd''\<rparr>]"
proof -
  let ?req = "sample_req (Some [Hash]) sample_scan"
  let ?run = "WebhookEndpoint sample_cfg ?req sample_db"
  have run: "fst ?run = Inr \<lparr>res_status = 200, res_json = OkJson\<rparr>" by code_simp
  have ok: "?run = (Inr \<lparr>res_status = 200, res_json = OkJson\<rparr>, snd ?run)"
    using run by (metis prod.collapse)
  have h2: "res_status \<lparr>res_status = 200, res_json = OkJson\<rparr> = 200" by simp
  have h3: "Hash \<in> set (tasks_of (req_query ?req))" by (simp add: sample_req_def int_value_def tasks_of_def)
  have h4: "hashes (req_body ?req) = Some [(SHA256, ''abc''), (AutoV1, ''dd'')]"
    by (simp add: sample_req_def int_value_def sample_scan_def)
  have f: "find (has_key 3 ''Model'' PickleTensor) (modelFiles sample_db) = Some sample_file"
    by code_simp
  have i: "file_id sample_file = 7" by (simp add: sample_file_def)
  have old: "filter (\<lambda>h. hash_fileId h = 7) (modelHashes sample_db)
     = [\<lparr>hash_fileId = 7, hash_type = CRC32, hash_hash = ''0a0b''\<rparr>]"
    by code_simp
  show ?thesis
    using hash_records_replaced [OF ok h2 h3 h4] f i old h4
    by (auto simp: sample_req_def int_value_def)
qed

text \<open>
  C2. In an intake call that completes, with Import among its tasks and a payload that
  does not report the file as existing, where every Published version of the model of the
  file's version is that version (ids are positive, as the store assigns them): afterwards
  the version is Draft and the model is Unpublished. The calls of the query layer are, in
  this order, the lookup of the file, the update of the version, the lookup of its model
  id, the count of the Published versions of the model, which finds none, and the update
  of the model: the version is updated before the count is taken.
\<close>

theorem unpublish_only_published_version:
  assumes ok: "WebhookEndpoint cfg req d = (Inr resp, d')" "res_status resp = 200"
    and imp: "Import \<in> set (tasks_of (req_query req))"
    and gone: "fileExists (req_body req) \<noteq> 1"
    and ver: "find (\<lambda>v. version_id v = int_value (q_modelVersionId (req_query req))) (modelVersions d) = Some v"
    and pos: "0 < version_modelId v"
    and mod: "find (\<lambda>m. model_id m = version_modelId v) (models d) = Some m"
    and only: "\<forall>w \<in> set (modelVersions d).
                 version_modelId w = version_modelId v \<and> version_status w = Published
                 \<longrightarrow> version_id w = int_value (q_modelVersionId (req_query req))"
  shows "find (\<lambda>v. version_id v = int_value (q_modelVersionId (req_query req))) (modelVersions d')
           = Some (v\<lparr>version_status := Draft\<rparr>) \<and>
         find (\<lambda>m. model_id m = version_modelId v) (models d')
           = Some (m\<lparr>model_status := Unpublished\<rparr>) \<and>
         prefix (oplog d @
                  [FileFindUnique (q_modelVersionId (req_query req)) (q_type (req_query req))
                     (q_format (req_query req)),
                   VersionUpdate (int_value (q_modelVersionId (req_query req))) Draft,
                   VersionFindUnique (int_value (q_modelVersionId (req_query req))),
                   ModelCountPublished (version_modelId v) (Some 0),
                   ModelUpdate (version_modelId v) Unpublished])
           (oplog d')"
proof -
  let ?q = "req_query req"
  let ?vid = "int_value (q_modelVersionId ?q)"
  let ?mid = "version_modelId v"
  let ?d0 = "record_op (FileFindUnique (q_modelVersionId ?q) (q_type ?q) (q_format ?q)) d"
  from ok obtain mf data1 sr1 data2 d2 d3 where
    f: "find (has_key ?vid (q_type ?q) (q_format ?q)) (modelFiles d) = Some mf" and
    s1: "(if Scan \<in> set (tasks_of ?q) then scan_task cfg (req_body req) empty_data
          else Inr (empty_data, req_body req)) = Inr (data1, sr1)" and
    s2: "(if Import \<in> set (tasks_of ?q)
          then import_task cfg ?vid (file_url mf) sr1 data1 ?d0
          else (Inr data1, ?d0)) = (Inr data2, d2)" and
    s3: "(if has_keys data2
          then modelFile_update ?vid (q_type ?q) (q_format ?q) data2 d2
          else (Inr (), d2)) = (Inr (), d3)" and
    s4: "(case (Hash \<in> set (tasks_of ?q), hashes sr1) of
            (True, Some entries) \<Rightarrow> hash_task (file_id mf) entries d3
          | _ \<Rightarrow> (Inr (), d3)) = (Inr (), d')"
    by (rule WebhookEndpoint_ok)
  note p1 = scan_step_preserves[OF s1]
  note p2 = import_step[OF s2]
  note p3 = update_step[OF s3]
  note p4 = hash_step[OF s4]
  from p1 gone have "fileExists sr1 \<noteq> 1" by simp
  with p2 imp have un: "unpublish ?vid ?d0 = (Inr (), d2)" by simp
  have ver0: "find (\<lambda>v. version_id v = ?vid) (modelVersions ?d0) = Some v"
    using ver by simp
  have exm: "\<exists>x \<in> set (models ?d0). model_id x = ?mid"
    using mod by (auto simp: find_Some_iff)
  have c0: "count_published ?mid (set_version_status ?vid Draft (modelVersions ?d0)) = 0"
  proof (rule count_published_zero)
    fix w assume "w \<in> set (modelVersions ?d0)" "version_modelId w = ?mid" "version_status w = Published"
    with only show "version_id w = ?vid" by simp
  qed
  from pos have nz: "?mid \<noteq> 0" by simp
  have d2: "d2 = ?d0\<lparr>modelVersions := set_version_status ?vid Draft (modelVersions ?d0),
                     models := set_model_status ?mid Unpublished (models ?d0),
                     oplog := oplog ?d0 @ [VersionUpdate ?vid Draft, VersionFindUnique ?vid,
                                ModelCountPublished ?mid (Some 0), ModelUpdate ?mid Unpublished]\<rparr>"
    using un nz exm c0 unfolding unpublish_found[OF ver0] Let_def by simp
  have vs: "modelVersions d' = set_version_status ?vid Draft (modelVersions d)"
    using p4 p3 d2 by simp
  have ms: "models d' = set_model_status ?mid Unpublished (models d)"
    using p4 p3 d2 by simp
  have lg: "oplog d2 = oplog d @ [FileFindUnique (q_modelVersionId ?q) (q_type ?q) (q_format ?q),
                   VersionUpdate ?vid Draft, VersionFindUnique ?vid,
                   ModelCountPublished ?mid (Some 0), ModelUpdate ?mid Unpublished]"
    using d2 by simp
  have "prefix (oplog d2) (oplog d')"
    using p3 p4 by (meson prefix_order.trans)
  then have c3: "prefix (oplog d @ [FileFindUnique (q_modelVersionId ?q) (q_type ?q) (q_format ?q),
                   VersionUpdate ?vid Draft, VersionFindUnique ?vid,
                   ModelCountPublished ?mid (Some 0), ModelUpdate ?mid Unpublished]) (oplog d')"
    by (simp only: lg)
  have vid: "version_id v = ?vid" using ver by (auto simp: find_Some_iff)
  have c1: "find (\<lambda>v. version_id v = ?vid) (modelVersions d') = Some (v\<lparr>version_status := Draft\<rparr>)"
    unfolding vs find_set_version_status ver using vid by simp
  have mid: "model_id m = ?mid" using mod by (auto simp: find_Some_iff)
  have c2: "find (\<lambda>m. model_id m = ?mid) (models d') = Some (m\<lparr>model_status := Unpublished\<rparr>)"
    unfolding ms find_set_model_status mod using mid by simp
  from c1 c2 c3 show ?thesis by blast
qed

theorem unpublish_only_published_version_witness:
  "fileExists gone_scan \<noteq> 1 \<and>
   find (\<lambda>v. version_id v = 3) (modelVersions sample_db) = Some sample_version \<and>
   version_status sample_version = Published \<and>
   find (\<lambda>m. model_id m = 1) (models sample_db) = Some sample_model \<and>
   find (\<lambda>v. version_id v = 3)
     (modelVersions (snd (WebhookEndpoint sample_cfg (sample_req (Some [Import]) gone_scan) sample_db)))
     = Some (sample_version\<lparr>version_status := Draft\<rparr>) \<and>
   find (\<lambda>m. model_id m = 1)
     (models (snd (WebhookEndpoint sample_cfg (sample_req (Some [Import]) gone_scan) sample_db)))
     = Some (sample_model\<lparr>model_status := Unpublished\<rparr>)"
proof -
  let ?req = "sample_req (Some [Import]) gone_scan"
  let ?run = "WebhookEndpoint sample_cfg ?req sample_db"
  have run: "fst ?run = Inr \<lparr>res_status = 200, res_json = OkJson\<rparr>" by code_simp
  have ok: "?run = (Inr \<lparr>res_status = 200, res_json = OkJson\<rparr>, snd ?run)"
    using run by (metis prod.collapse)
  have h2: "res_status \<lparr>res_status = 200, res_json = OkJson\<rparr> = 200" by simp
  have h3: "Import \<in> set (tasks_of (req_query ?req))" by (simp add: sample_req_def int_value_def tasks_of_def)
  have h4: "fileExists (req_body ?req) \<noteq> 1"
    by (simp add: sample_req_def int_value_def gone_scan_def sample_scan_def)
  have q: "int_value (q_modelVersionId (req_query ?req)) = 3" by (simp add: sample_req_def int_value_def)
  have h5: "find (\<lambda>v. version_id v = int_value (q_modelVersionId (req_query ?req))) (modelVersions sample_db)
              = Some sample_version"
    unfolding q by code_simp
  have m: "version_modelId sample_version = 1" by (simp add: sample_version_def)
  have h6: "0 < version_modelId sample_version" by (simp add: m)
  have h7: "find (\<lambda>m. model_id m = version_modelId sample_version) (models sample_db)
              = Some sample_model"
    unfolding m by code_simp
  have h8: "\<forall>w \<in> set (modelVersions sample_db).
              version_modelId w = version_modelId sample_version \<and> version_status w = Published
              \<longrightarrow> version_id w = int_value (q_modelVersionId (req_query ?req))"
    unfolding q by (simp add: sample_db_def sample_version_def)
  have st: "version_status sample_version = Published" by (simp add: sample_version_def)
  show ?thesis
    using unpublish_only_published_version [OF ok h2 h3 h4 h5 h6 h7 h8] h4 h5 h7 st
    by (simp add: q m sample_req_def int_value_def)
qed

text \<open>
  C3. In an intake call that completes, with Import among its tasks and a payload that
  does not report the file as existing, where another version of the same model is
  Published: afterwards the version of the file is Draft, the other version is as it was,
  and the models are as they were, so the status of the model is unchanged.
\<close>

theorem unpublish_other_published_version:
  assumes ok: "WebhookEndpoint cfg req d = (Inr resp, d')" "res_status resp = 200"
    and imp: "Import \<in> set (tasks_of (req_query req))"
    and gone: "fileExists (req_body req) \<noteq> 1"
    and ver: "find (\<lambda>v. version_id v = int_value (q_modelVersionId (req_query req))) (modelVersions d) = Some v"
    and other: "w \<in> set (modelVersions d)" "version_id w \<noteq> int_value (q_modelVersionId (req_query req))"
               "version_modelId w = version_modelId v" "version_status w = Published"
  shows "find (\<lambda>v. version_id v = int_value (q_modelVersionId (req_query req))) (modelVersions d')
           = Some (v\<lparr>version_status := Draft\<rparr>) \<and>
         models d' = models d \<and>
         w \<in> set (modelVersions d')"
proof -
  let ?q = "req_query req"
  let ?vid = "int_value (q_modelVersionId ?q)"
  let ?mid = "version_modelId v"
  let ?d0 = "record_op (FileFindUnique (q_modelVersionId ?q) (q_type ?q) (q_format ?q)) d"
  from ok obtain mf data1 sr1 data2 d2 d3 where
    f: "find (has_key ?vid (q_type ?q) (q_format ?q)) (modelFiles d) = Some mf" and
    s1: "(if Scan \<in> set (tasks_of ?q) then scan_task cfg (req_body req) empty_data
          else Inr (empty_data, req_body req)) = Inr (data1, sr1)" and
    s2: "(if Import \<in> set (tasks_of ?q)
          then import_task cfg ?vid (file_url mf) sr1 data1 ?d0
          else (Inr data1, ?d0)) = (Inr data2, d2)" and
    s3: "(if has_keys data2
          then modelFile_update ?vid (q_type ?q) (q_format ?q) data2 d2
          else (Inr (), d2)) = (Inr (), d3)" and
    s4: "(case (Hash \<in> set (tasks_of ?q), hashes sr1) of
            (True, Some entries) \<Rightarrow> hash_task (file_id mf) entries d3
          | _ \<Rightarrow> (Inr (), d3)) = (Inr (), d')"
    by (rule WebhookEndpoint_ok)
  note p1 = scan_step_preserves[OF s1]
  note p2 = import_step[OF s2]
  note p3 = update_step[OF s3]
  note p4 = hash_step[OF s4]
  from p1 gone have "fileExists sr1 \<noteq> 1" by simp
  with p2 imp have un: "unpublish ?vid ?d0 = (Inr (), d2)" by simp
  have ver0: "find (\<lambda>v. version_id v = ?vid) (modelVersions ?d0) = Some v"
    using ver by simp
  have cp: "count_published ?mid (set_version_status ?vid Draft (modelVersions ?d0)) \<noteq> 0"
    using count_published_pos[OF other(1) other(2) other(3) other(4), of Draft] by simp
  have d2: "modelVersions d2 = set_version_status ?vid Draft (modelVersions d) \<and> models d2 = models d"
    using un cp unfolding unpublish_found[OF ver0] Let_def
    by (cases "?mid = 0"; cases "\<exists>x \<in> set (models ?d0). model_id x = ?mid") auto
  have vs: "modelVersions d' = set_version_status ?vid Draft (modelVersions d)"
    using p4 p3 d2 by simp
  have ms: "models d' = models d"
    using p4 p3 d2 by simp
  have vid: "version_id v = ?vid" using ver by (auto simp: find_Some_iff)
  have c1: "find (\<lambda>v. version_id v = ?vid) (modelVersions d') = Some (v\<lparr>version_status := Draft\<rparr>)"
    unfolding vs find_set_version_status ver using vid by simp
  have "(if version_id w = ?vid then w\<lparr>version_status := Draft\<rparr> else w) \<in>
          (\<lambda>v. if version_id v = ?vid then v\<lparr>version_status := Draft\<rparr> else v) ` set (modelVersions d)"
    using other(1) by (rule imageI)
  with other(2) have c3: "w \<in> set (modelVersions d')"
    unfolding vs by (simp add: set_version_status_def)
  from c1 ms c3 show ?thesis by blast
qed

theorem unpublish_other_published_version_witness:
  "fileExists gone_scan \<noteq> 1 \<and>
   find (\<lambda>v. version_id v = 3)
     (modelVersions (snd (WebhookEndpoint sample_cfg (sample_req (Some [Import]) gone_scan) sample_db2)))
     = Some (sample_version\<lparr>version_status := Draft\<rparr>) \<and>
   models (snd (WebhookEndpoint sample_cfg (sample_req (Some [Import]) gone_scan) sample_db2))
     = [sample_model] \<and>
   model_status sample_model = Published"
proof -
  let ?req = "sample_req (Some [Import]) gone_scan"
  let ?run = "WebhookEndpoint sample_cfg ?req sample_db2"
  let ?w = "\<lparr>version_id = 4, version_name = ''v2'', version_modelId = 1,
             version_trainedWords = [], version_status = Published\<rparr>"
  have run: "fst ?run = Inr \<lparr>res_status = 200, res_json = OkJson\<rparr>" by code_simp
  have ok: "?run = (Inr \<lparr>res_status = 200, res_json = OkJson\<rparr>, snd ?run)"
    using run by (metis prod.collapse)
  have h2: "res_status \<lparr>res_status = 200, res_json = OkJson\<rparr> = 200" by simp
  have h3: "Import \<in> set (tasks_of (req_query ?req))" by (simp add: sample_req_def int_value_def tasks_of_def)
  have h4: "fileExists (req_body ?req) \<noteq> 1"
    by (simp add: sample_req_def int_value_def gone_scan_def sample_scan_def)
  have q: "int_value (q_modelVersionId (req_query ?req)) = 3" by (simp add: sample_req_def int_value_def)
  have h5: "find (\<lambda>v. version_id v = int_value (q_modelVersionId (req_query ?req))) (modelVersions sample_db2)
              = Some sample_version"
    unfolding q by code_simp
  have o1: "?w \<in> set (modelVersions sample_db2)" by (simp add: sample_db2_def)
  have o2: "version_id ?w \<noteq> int_value (q_modelVersionId (req_query ?req))" by (simp add: q)
  have o3: "version_modelId ?w = version_modelId sample_version" by (simp add: sample_version_def)
  have o4: "version_status ?w = Published" by simp
  have ms: "models sample_db2 = [sample_model]" by (simp add: sample_db2_def sample_db_def)
  have st: "model_status sample_model = Published" by (simp add: sample_model_def)
  show ?thesis
    using unpublish_other_published_version [OF ok h2 h3 h4 h5 o1 o2 o3 o4] h4 ms st
    by (simp add: q sample_req_def int_value_def)
qed


section \<open>The claims about the Scan task\<close>

text \<open>
  C7, as amended. In an intake call that completes, with Scan among its tasks, where the
  exit code of the pickle scan is not Pending and the dangerous imports and the global
  imports of the payload are both empty or absent: the examination of the payload returns
  the message "No Pickle imports" and the danger flag false, the message stored for the
  file is exactly "No Pickle imports", and the payload is stored as it has come (its exit
  code is not overwritten).
\<close>

theorem no_pickle_imports_message:
  assumes ok: "WebhookEndpoint cfg req d = (Inr resp, d')" "res_status resp = 200"
    and scan: "Scan \<in> set (tasks_of (req_query req))"
    and np: "picklescanExitCode (req_body req) \<noteq> ScanExitCode_Pending"
    and nd: "picklescanDangerousImports (req_body req) = None \<or>
             picklescanDangerousImports (req_body req) = Some []"
    and ng: "picklescanGlobalImports (req_body req) = None \<or>
             picklescanGlobalImports (req_body req) = Some []"
  shows "examinePickleScanMessage (req_body req) =
           Inr (\<lparr>pickleScanMessage = Some ''No Pickle imports'', hasDanger = Some False\<rparr>,
                req_body req) \<and>
         (\<exists>mf'. find (has_key (int_value (q_modelVersionId (req_query req))) (q_type (req_query req))
                   (q_format (req_query req))) (modelFiles d') = Some mf' \<and>
                file_pickleScanMessage mf' = Some ''No Pickle imports'' \<and>
                file_rawScanResult mf' = Some (req_body req))"
proof -
  note e = examine_no_imports[OF np nd ng]
  from scan_stored[OF ok scan] obtain mf data1 sr1 mf' where
    f: "find (has_key (int_value (q_modelVersionId (req_query req))) (q_type (req_query req))
            (q_format (req_query req))) (modelFiles d) = Some mf" and
    st: "scan_task cfg (req_body req) empty_data = Inr (data1, sr1)" and
    f': "find (has_key (int_value (q_modelVersionId (req_query req))) (q_type (req_query req))
            (q_format (req_query req))) (modelFiles d') = Some mf'" and
    m: "file_pickleScanMessage mf' =
       (case data_pickleScanMessage data1 of Value m \<Rightarrow> Some m | _ \<Rightarrow> file_pickleScanMessage mf)" and
    r: "file_rawScanResult mf' = Some sr1"
    by blast
  from scan_task_result[OF st] e
  have "sr1 = req_body req" and "data_pickleScanMessage data1 = Value ''No Pickle imports''"
    by (auto simp: of_undefined_def)
  with m r have "file_pickleScanMessage mf' = Some ''No Pickle imports''"
    and "file_rawScanResult mf' = Some (req_body req)" by simp_all
  with f' e show ?thesis by blast
qed

theorem no_pickle_imports_message_witness:
  "picklescanExitCode sample_scan \<noteq> ScanExitCode_Pending \<and>
   picklescanDangerousImports sample_scan = Some [] \<and>
   picklescanGlobalImports sample_scan = Some [] \<and>
   hasDanger (fst (projr (examinePickleScanMessage sample_scan))) = Some False \<and>
   (\<exists>mf'. find (has_key 3 ''Model'' PickleTensor)
            (modelFiles (snd (WebhookEndpoint sample_cfg (sample_req (Some [Scan]) sample_scan)
               sample_db))) = Some mf' \<and>
          file_pickleScanMessage mf' = Some ''No Pickle imports'')"
proof -
  let ?req = "sample_req (Some [Scan]) sample_scan"
  let ?run = "WebhookEndpoint sample_cfg ?req sample_db"
  have run: "fst ?run = Inr \<lparr>res_status = 200, res_json = OkJson\<rparr>" by code_simp
  have ok: "?run = (Inr \<lparr>res_status = 200, res_json = OkJson\<rparr>, snd ?run)"
    using run by (metis prod.collapse)
  have h2: "res_status \<lparr>res_status = 200, res_json = OkJson\<rparr> = 200" by simp
  have h3: "Scan \<in> set (tasks_of (req_query ?req))" by (simp add: sample_req_def int_value_def tasks_of_def)
  have b: "req_body ?req = sample_scan" by (simp add: sample_req_def int_value_def)
  have h4: "picklescanExitCode (req_body ?req) \<noteq> ScanExitCode_Pending"
    unfolding b by (simp add: sample_scan_def ScanExitCode_Pending_def)
  have d: "picklescanDangerousImports sample_scan = Some []" by (simp add: sample_scan_def)
  have g: "picklescanGlobalImports sample_scan = Some []" by (simp add: sample_scan_def)
  have h5: "picklescanDangerousImports (req_body ?req) = None \<or>
            picklescanDangerousImports (req_body ?req) = Some []"
    unfolding b using d by simp
  have h6: "picklescanGlobalImports (req_body ?req) = None \<or>
            picklescanGlobalImports (req_body ?req) = Some []"
    unfolding b using g by simp
  show ?thesis
    using no_pickle_imports_message [OF ok h2 h3 h4 h5 h6] h4 d g
    by (auto simp: sample_req_def int_value_def)
qed

text \<open>
  C7 as stated fails when the exit code of the pickle scan is Pending (-1): the
  examination returns at once, with neither a message nor a flag, and the message stored
  for the file stays what it was, here none.
\<close>

theorem no_pickle_imports_message_counterexample:
  "Scan \<in> set (tasks_of (req_query (sample_req (Some [Scan]) pending_scan))) \<and>
   picklescanDangerousImports pending_scan = Some [] \<and>
   picklescanGlobalImports pending_scan = Some [] \<and>
   fst (WebhookEndpoint sample_cfg (sample_req (Some [Scan]) pending_scan) sample_db)
     = Inr \<lparr>res_status = 200, res_json = OkJson\<rparr> \<and>
   examinePickleScanMessage pending_scan
     = Inr (\<lparr>pickleScanMessage = None, hasDanger = None\<rparr>, pending_scan) \<and>
   map file_pickleScanMessage
     (modelFiles (snd (WebhookEndpoint sample_cfg (sample_req (Some [Scan]) pending_scan) sample_db)))
     = [None]"
  by code_simp

text \<open>
  C1. The claim: when a global import of the payload, once processed, is on the list of
  special imports, the verdict of the pickle scan stored on the file is Danger, also for
  the exit code 0. The handler does not do this. At the payload below (exit code 0, one
  global import, which is processed to the special import) the call completes, the
  verdict stored is Success, and only the copy of the payload stored as the raw scan
  result carries the exit code of Danger: the verdict is read from the exit code before
  the imports are examined, and the exit code is overwritten after.
\<close>

theorem special_import_verdict_not_forced:
  "processImport ''pytorch_lightning.callbacks.model_checkpoint,ModelCheckpoint''
     = Inr ''pytorch_lightning.callbacks.model_checkpoint.ModelCheckpoint'' \<and>
   ''pytorch_lightning.callbacks.model_checkpoint.ModelCheckpoint'' \<in> set specialImports \<and>
   picklescanGlobalImports special_scan
     = Some [''pytorch_lightning.callbacks.model_checkpoint,ModelCheckpoint''] \<and>
   picklescanExitCode special_scan = ScanExitCode_Success \<and>
   Scan \<in> set (tasks_of (req_query (sample_req None special_scan))) \<and>
   fst (WebhookEndpoint sample_cfg (sample_req None special_scan) sample_db)
     = Inr \<lparr>res_status = 200, res_json = OkJson\<rparr> \<and>
   map file_pickleScanResult
     (modelFiles (snd (WebhookEndpoint sample_cfg (sample_req None special_scan) sample_db)))
     = [Success] \<and>
   map (\<lambda>f. map_option picklescanExitCode (file_rawScanResult f))
     (modelFiles (snd (WebhookEndpoint sample_cfg (sample_req None special_scan) sample_db)))
     = [Some ScanExitCode_Danger]"
  by code_simp

end
